theory Spec2Isabelle
  imports Complex_Main
begin

unbundle bit_operations_syntax

section \<open>Data model\<close>

text \<open>
  The C++ type \<open>double\<close> is idealised as \<open>real\<close> throughout: rounding, infinities and
  NaN are outside this development. \<open>int\<close> values are unbounded integers; none of the
  modelled code paths does integer arithmetic that could overflow for lists shorter than
  \<open>2^31\<close> elements.
\<close>

text \<open>\<open>hduVector3Dd\<close> of the device library: three doubles, read with \<open>v[0]\<close>, \<open>v[1]\<close>, \<open>v[2]\<close>.\<close>

type_synonym hduVector3Dd = "real \<times> real \<times> real"

definition vx :: "hduVector3Dd \<Rightarrow> real" where
  "vx v = fst v"

definition vy :: "hduVector3Dd \<Rightarrow> real" where
  "vy v = fst (snd v)"

definition vz :: "hduVector3Dd \<Rightarrow> real" where
  "vz v = snd (snd v)"

text \<open>Class \<open>HapticData\<close> (haptic\_data.h): the pointer position in application coordinates.\<close>

record HapticData =
  pos_x :: real
  pos_y :: real
  pos_z :: real

text \<open>
  Class \<open>AtomData\<close> (atom\_data.h). Its fields carry the prefix \<open>atom_\<close> here,
  since a record field name is global to the theory: \<open>atom_index\<close> is the member
  \<open>index\<close> (read by \<open>getId\<close>) and \<open>atom_distance\<close> the member \<open>distance\<close>,
  the radius used by the containment test.
\<close>

record AtomData =
  atom_index :: int
  atom_pos_x :: real
  atom_pos_y :: real
  atom_pos_z :: real
  atom_distance :: real

section \<open>Utilities of openhaptics.cpp\<close>

subsection \<open>Coordinate transformations\<close>

text \<open>
  A matrix is a \<open>std::vector<std::vector<double>>\<close>; the code reads rows 0 to 2 and
  columns 0 to 3 with unchecked \<open>operator[]\<close>, so the functions below are meaningful
  on matrices with at least three rows of at least four entries (\<open>is_mat4\<close> below is
  the shape the manager keeps).
\<close>

definition transformToAppCoordinates ::
  "hduVector3Dd \<Rightarrow> real list list \<Rightarrow> int \<Rightarrow> HapticData" where
  "transformToAppCoordinates pos transformation_matrix scale_factor =
     (let x = transformation_matrix ! 0 ! 0 * vx pos +
              transformation_matrix ! 0 ! 1 * vy pos +
              transformation_matrix ! 0 ! 2 * vz pos +
              transformation_matrix ! 0 ! 3;
          y = transformation_matrix ! 1 ! 0 * vx pos +
              transformation_matrix ! 1 ! 1 * vy pos +
              transformation_matrix ! 1 ! 2 * vz pos +
              transformation_matrix ! 1 ! 3;
          z = transformation_matrix ! 2 ! 0 * vx pos +
              transformation_matrix ! 2 ! 1 * vy pos +
              transformation_matrix ! 2 ! 2 * vz pos +
              transformation_matrix ! 2 ! 3
      in \<lparr>pos_x = x / real_of_int scale_factor,
          pos_y = y / real_of_int scale_factor,
          pos_z = z / real_of_int scale_factor\<rparr>)"

definition transformToHapticCoordinates ::
  "real \<Rightarrow> real \<Rightarrow> real \<Rightarrow> real list list \<Rightarrow> int \<Rightarrow> hduVector3Dd" where
  "transformToHapticCoordinates x y z invert_matrix scale_factor =
     (let new_x = invert_matrix ! 0 ! 0 * x * real_of_int scale_factor +
                  invert_matrix ! 0 ! 1 * y * real_of_int scale_factor +
                  invert_matrix ! 0 ! 2 * z * real_of_int scale_factor +
                  invert_matrix ! 0 ! 3;
          new_y = invert_matrix ! 1 ! 0 * x * real_of_int scale_factor +
                  invert_matrix ! 1 ! 1 * y * real_of_int scale_factor +
                  invert_matrix ! 1 ! 2 * z * real_of_int scale_factor +
                  invert_matrix ! 1 ! 3;
          new_z = invert_matrix ! 2 ! 0 * x * real_of_int scale_factor +
                  invert_matrix ! 2 ! 1 * y * real_of_int scale_factor +
                  invert_matrix ! 2 ! 2 * z * real_of_int scale_factor +
                  invert_matrix ! 2 ! 3
      in (new_x, new_y, new_z))"

subsection \<open>Proximity\<close>

definition calculateDistance :: "AtomData \<Rightarrow> HapticData \<Rightarrow> real" where
  "calculateDistance atom data =
     (let x_d = (atom_pos_x atom - pos_x data) * (atom_pos_x atom - pos_x data);
          y_d = (atom_pos_y atom - pos_y data) * (atom_pos_y atom - pos_y data);
          z_d = (atom_pos_z atom - pos_z data) * (atom_pos_z atom - pos_z data)
      in sqrt (x_d + y_d + z_d))"

text \<open>
  The loop of \<open>findClosestAtomIndex\<close>: \<open>i\<close> is the loop counter, the list is the part
  of \<open>molecule\<close> from position \<open>i\<close> on, and the pair is
  \<open>(closest_atom_index, best_d)\<close>.
\<close>

fun closest_loop :: "AtomData list \<Rightarrow> HapticData \<Rightarrow> int \<Rightarrow> int \<times> real \<Rightarrow> int \<times> real" where
  "closest_loop [] data i (closest_atom_index, best_d) = (closest_atom_index, best_d)"
| "closest_loop (atom # rest) data i (closest_atom_index, best_d) =
     (let d = calculateDistance atom data
      in if closest_atom_index = -1 \<or> d < best_d
         then closest_loop rest data (i + 1) (i, d)
         else closest_loop rest data (i + 1) (closest_atom_index, best_d))"

definition findClosestAtomIndex :: "AtomData list \<Rightarrow> HapticData \<Rightarrow> int" where
  "findClosestAtomIndex molecule data = fst (closest_loop molecule data 0 (-1, -1))"

subsection \<open>Force\<close>

text \<open>
  The vector helpers of the device's utility library (not part of this repository), with
  their documented meaning. Normalising the zero vector does not occur on the paths proved
  below; the model divides as the library does and inherits HOL's \<open>x / 0 = 0\<close> there.
\<close>

definition hduVecScaleInPlace :: "hduVector3Dd \<Rightarrow> real \<Rightarrow> hduVector3Dd" where
  "hduVecScaleInPlace v s = (vx v * s, vy v * s, vz v * s)"

definition hduVecMagnitude :: "hduVector3Dd \<Rightarrow> real" where
  "hduVecMagnitude v = sqrt (vx v * vx v + vy v * vy v + vz v * vz v)"

definition hduVecNormalizeInPlace :: "hduVector3Dd \<Rightarrow> hduVector3Dd" where
  "hduVecNormalizeInPlace v =
     (vx v / hduVecMagnitude v, vy v / hduVecMagnitude v, vz v / hduVecMagnitude v)"

definition hduVecSubtract :: "hduVector3Dd \<Rightarrow> hduVector3Dd \<Rightarrow> hduVector3Dd" where
  "hduVecSubtract a b = (vx a - vx b, vy a - vy b, vz a - vz b)"

text \<open>
  \<open>scaleForce\<close> updates \<open>force\<close> in place; the model returns the new vector.
  \<open>force_clamp\<close> is the value the device reports for
  \<open>HD_NOMINAL_MAX_CONTINUOUS_FORCE\<close>.
\<close>

definition scaleForce :: "hduVector3Dd \<Rightarrow> real \<Rightarrow> real \<Rightarrow> hduVector3Dd" where
  "scaleForce force anchor_stiffness force_clamp =
     (let force1 = hduVecScaleInPlace force anchor_stiffness
      in if hduVecMagnitude force1 > force_clamp
         then hduVecScaleInPlace (hduVecNormalizeInPlace force1) force_clamp
         else force1)"

subsection \<open>Camera deltas\<close>

definition calculateAzimuth :: "hduVector3Dd \<Rightarrow> hduVector3Dd \<Rightarrow> real" where
  "calculateAzimuth position last_position = vx last_position - vx position"

definition calculateElevation :: "hduVector3Dd \<Rightarrow> hduVector3Dd \<Rightarrow> real" where
  "calculateElevation position last_position = vy last_position - vy position"

definition calculateZoom :: "hduVector3Dd \<Rightarrow> hduVector3Dd \<Rightarrow> real" where
  "calculateZoom position last_position =
     (if vz last_position - vz position \<le> - (12 / 10) then 90 / 100
      else if vz last_position - vz position \<ge> 12 / 10 then 110 / 100
      else 1)"

section \<open>The device manager\<close>

text \<open>
  Constants of the device API headers (not part of this repository): the button masks, with
  which the code's own literals \<open>1\<close> and \<open>2\<close> agree, and the invalid handle.
\<close>

definition HD_DEVICE_BUTTON_1 :: int where
  "HD_DEVICE_BUTTON_1 = 1"

definition HD_DEVICE_BUTTON_2 :: int where
  "HD_DEVICE_BUTTON_2 = 2"

definition HD_INVALID_HANDLE :: nat where
  "HD_INVALID_HANDLE = 4294967295"

text \<open>The member \<open>const int scale_factor = 10\<close>.\<close>

definition scale_factor :: int where
  "scale_factor = 10"

text \<open>
  The fields of class \<open>HapticDeviceManager\<close> (openhaptics.h) without the three mutexes.
  A registered \<open>HapticCallback*\<close> is a natural number (the pointer);
  \<open>last_event_timestamp\<close> counts ticks of \<open>std::chrono::steady_clock\<close>, taken to be
  nanoseconds.
\<close>

record HapticDeviceManager =
  ghHD :: nat
  hUpdateDeviceCallback :: nat
  calc_gradient_in_loop :: bool
  first_button_down :: bool
  second_button_down :: bool
  call_first_time :: bool
  last_send_data :: hduVector3Dd
  transformation_matrix :: "real list list"
  invert_matrix :: "real list list"
  gradient :: "real list list"
  callbacks :: "nat list"
  molecule :: "AtomData list"
  last_event_timestamp :: int

text \<open>The state of a freshly constructed manager: the member initialisers of the header.\<close>

definition identity4 :: "real list list" where
  "identity4 = [[1, 0, 0, 0], [0, 1, 0, 0], [0, 0, 1, 0], [0, 0, 0, 1]]"

definition initial_manager :: HapticDeviceManager where
  "initial_manager =
     \<lparr>ghHD = HD_INVALID_HANDLE,
      hUpdateDeviceCallback = HD_INVALID_HANDLE,
      calc_gradient_in_loop = False,
      first_button_down = False,
      second_button_down = False,
      call_first_time = True,
      last_send_data = (0, 0, 0),
      transformation_matrix = identity4,
      invert_matrix = identity4,
      gradient = [],
      callbacks = [],
      molecule = [],
      last_event_timestamp = 0\<rparr>"

text \<open>
  \<open>setForce\<close> returns the vector it writes to \<open>HD_CURRENT_FORCE\<close>. The parameter
  \<open>position\<close> is unused, as in the source.
\<close>

definition setForce ::
  "hduVector3Dd \<Rightarrow> hduVector3Dd \<Rightarrow> hduVector3Dd \<Rightarrow> HapticDeviceManager \<Rightarrow> real \<Rightarrow> hduVector3Dd" where
  "setForce position atom_pos atom_gradient p_this force_clamp =
     (if calc_gradient_in_loop p_this \<and> second_button_down p_this
      then (let new_pos = (vx atom_pos - vx atom_gradient,
                           vy atom_pos - vy atom_gradient,
                           vz atom_pos - vz atom_gradient)
            in scaleForce (hduVecSubtract new_pos atom_pos) (8 / 10) force_clamp)
      else (0, 0, 0))"

subsection \<open>The servicing loop\<close>

text \<open>The notifications of interface \<open>HapticCallback\<close>.\<close>

datatype callback_event =
    Move HapticData real real real
  | First_button_down
  | First_button_up
  | Second_button_down int
  | Second_button_up

text \<open>
  What one invocation of \<open>updateDeviceCallback\<close> reads from the device and the clock:
  positions, button masks, the error state of the API, the force ceiling and
  \<open>steady_clock::now()\<close>.
\<close>

record hd_frame =
  current_position :: hduVector3Dd
  last_position :: hduVector3Dd
  current_buttons :: int
  last_buttons :: int
  device_error :: bool
  nominal_max_continuous_force :: real
  now :: int

text \<open>What one invocation leaves behind: the manager, the force written (if any) and the
  notifications delivered, in order, each with the listener that received it.\<close>

record frame_result =
  manager :: HapticDeviceManager
  force_written :: "hduVector3Dd option"
  notifications :: "(nat \<times> callback_event) list"

datatype fatal = Process_exit int

text \<open>
  Lines 183 to 210: the closest atom, the containment test and the force. The comparison
  \<open>selected_atom_id < gradients.size()\<close> is made on \<open>size_t\<close>, where a negative
  id is a huge number and never below the size.
\<close>

definition closest_atom_of :: "AtomData list \<Rightarrow> HapticData \<Rightarrow> AtomData" where
  "closest_atom_of mol data = mol ! nat (findClosestAtomIndex mol data)"

definition selected_atom_id_of :: "AtomData list \<Rightarrow> HapticData \<Rightarrow> int" where
  "selected_atom_id_of mol data =
     (if length mol > 0
      then (let closest_atom = closest_atom_of mol data
            in if calculateDistance closest_atom data \<le> 3 * atom_distance closest_atom
               then atom_index closest_atom else - 1)
      else - 1)"

definition selected_gradient :: "AtomData list \<Rightarrow> real list list \<Rightarrow> HapticData \<Rightarrow> real list" where
  "selected_gradient mol gradients data =
     (let closest_atom = closest_atom_of mol data;
          selected_atom_id = atom_index closest_atom
      in if calculateDistance closest_atom data \<le> 3 * atom_distance closest_atom \<and>
            0 \<le> selected_atom_id \<and> nat selected_atom_id < length gradients
         then gradients ! nat selected_atom_id
         else [0, 0, 0])"

definition force_of_frame :: "HapticDeviceManager \<Rightarrow> hd_frame \<Rightarrow> HapticData \<Rightarrow> hduVector3Dd option" where
  "force_of_frame p_this f data =
     (if length (molecule p_this) > 0
      then (let grad = selected_gradient (molecule p_this) (gradient p_this) data;
                closest_atom = closest_atom_of (molecule p_this) data;
                transformed_atom =
                  transformToHapticCoordinates (atom_pos_x closest_atom) (atom_pos_y closest_atom)
                    (atom_pos_z closest_atom) (invert_matrix p_this) scale_factor;
                transformed_gradient =
                  transformToHapticCoordinates (grad ! 0) (grad ! 1) (grad ! 2)
                    (invert_matrix p_this) scale_factor
            in Some (setForce (current_position f) transformed_atom transformed_gradient p_this
                       (nominal_max_continuous_force f)))
      else None)"

text \<open>
  One loop \<open>for (auto* callback : p_this->callbacks) { flag = v; callback->event(); }\<close>:
  the assignment is inside the loop body, so it happens once per listener and not at all
  without one.
\<close>

fun for_callbacks ::
  "nat list \<Rightarrow> (HapticDeviceManager \<Rightarrow> HapticDeviceManager) \<Rightarrow> callback_event \<Rightarrow>
   HapticDeviceManager \<times> (nat \<times> callback_event) list \<Rightarrow>
   HapticDeviceManager \<times> (nat \<times> callback_event) list" where
  "for_callbacks [] assign ev (p_this, sent) = (p_this, sent)"
| "for_callbacks (callback # rest) assign ev (p_this, sent) =
     for_callbacks rest assign ev (assign p_this, sent @ [(callback, ev)])"

text \<open>Lines 212 to 236: the four edge tests, in the order of the source.\<close>

definition button_transitions ::
  "int \<Rightarrow> int \<Rightarrow> int \<Rightarrow> HapticDeviceManager \<times> (nat \<times> callback_event) list \<Rightarrow>
   HapticDeviceManager \<times> (nat \<times> callback_event) list" where
  "button_transitions cur lst selected_atom_id st0 =
     (let st1 = (if cur AND HD_DEVICE_BUTTON_1 \<noteq> 0 \<and> lst AND HD_DEVICE_BUTTON_1 = 0
                 then for_callbacks (callbacks (fst st0)) (\<lambda>p. p\<lparr>first_button_down := True\<rparr>)
                        First_button_down st0
                 else st0);
          st2 = (if cur AND HD_DEVICE_BUTTON_1 \<noteq> 1 \<and> lst AND HD_DEVICE_BUTTON_1 = 1
                 then for_callbacks (callbacks (fst st1)) (\<lambda>p. p\<lparr>first_button_down := False\<rparr>)
                        First_button_up st1
                 else st1);
          st3 = (if cur AND HD_DEVICE_BUTTON_2 \<noteq> 0 \<and> lst AND HD_DEVICE_BUTTON_2 = 0
                 then for_callbacks (callbacks (fst st2)) (\<lambda>p. p\<lparr>second_button_down := True\<rparr>)
                        (Second_button_down selected_atom_id) st2
                 else st2);
          st4 = (if cur AND HD_DEVICE_BUTTON_2 \<noteq> 2 \<and> lst AND HD_DEVICE_BUTTON_2 = 2
                 then for_callbacks (callbacks (fst st3)) (\<lambda>p. p\<lparr>second_button_down := False\<rparr>)
                        Second_button_up st3
                 else st3)
      in st4)"

text \<open>
  Lines 240 to 273. \<open>kMinDelay\<close> is \<open>std::chrono::microseconds(1000000) / 60\<close>, an
  integer division on a count of microseconds, here converted to the clock's nanoseconds
  as the comparison with \<open>now - last_event_timestamp\<close> does.
\<close>

definition kMaxEventsPerSecond :: int where
  "kMaxEventsPerSecond = 60"

definition kMinDelay :: int where
  "kMinDelay = 1000 * (1000000 div kMaxEventsPerSecond)"

definition move_events ::
  "hd_frame \<Rightarrow> HapticData \<Rightarrow> HapticDeviceManager \<times> (nat \<times> callback_event) list \<Rightarrow>
   HapticDeviceManager \<times> (nat \<times> callback_event) list" where
  "move_events f data st =
     (let p0 = fst st
      in if now f - last_event_timestamp p0 < kMinDelay then st
         else (let p1 = p0\<lparr>last_event_timestamp := now f\<rparr>;
                   p2 = (if call_first_time p1
                         then p1\<lparr>call_first_time := False, last_send_data := last_position f\<rparr>
                         else p1);
                   last_data = transformToAppCoordinates (last_send_data p2)
                                 (transformation_matrix p2) scale_factor;
                   azimuth = calculateAzimuth (current_position f) (last_send_data p2);
                   elevation = calculateElevation (current_position f) (last_send_data p2);
                   zoom = calculateZoom (current_position f) (last_send_data p2);
                   st3 = (if pos_x data \<noteq> pos_x last_data \<or>
                             pos_y data \<noteq> pos_y last_data \<or>
                             pos_z data \<noteq> pos_z last_data
                          then for_callbacks (callbacks p2) (\<lambda>p. p)
                                 (Move data azimuth elevation zoom) (p2, snd st)
                          else (p2, snd st))
               in (fst st3\<lparr>last_send_data := current_position f\<rparr>, snd st3)))"

text \<open>
  \<open>updateDeviceCallback\<close>: a device error ends the process with \<open>exit(-1)\<close>; otherwise
  the callback returns \<open>HD_CALLBACK_CONTINUE\<close> on both of its return paths.
\<close>

definition updateDeviceCallback :: "HapticDeviceManager \<Rightarrow> hd_frame \<Rightarrow> fatal + frame_result" where
  "updateDeviceCallback p_this f =
     (if device_error f then Inl (Process_exit (- 1))
      else (let data = transformToAppCoordinates (current_position f)
                         (transformation_matrix p_this) scale_factor;
                selected_atom_id = selected_atom_id_of (molecule p_this) data;
                force = force_of_frame p_this f data;
                st = button_transitions (current_buttons f) (last_buttons f) selected_atom_id
                       (p_this, []);
                st' = move_events f data st
            in Inr \<lparr>manager = fst st', force_written = force, notifications = snd st'\<rparr>))"

text \<open>The scheduler invoking the callback once per frame, until the process exits.\<close>

fun run_ticks :: "HapticDeviceManager \<Rightarrow> hd_frame list \<Rightarrow> fatal + frame_result list" where
  "run_ticks p_this [] = Inr []"
| "run_ticks p_this (f # fs) =
     (case updateDeviceCallback p_this f of
        Inl e \<Rightarrow> Inl e
      | Inr r \<Rightarrow> (case run_ticks (manager r) fs of
                    Inl e \<Rightarrow> Inl e
                  | Inr rs \<Rightarrow> Inr (r # rs)))"

section \<open>The public operations\<close>

definition add_haptic_callback :: "nat \<Rightarrow> HapticDeviceManager \<Rightarrow> HapticDeviceManager" where
  "add_haptic_callback callback p_this = p_this\<lparr>callbacks := callbacks p_this @ [callback]\<rparr>"

definition clear_molecule :: "HapticDeviceManager \<Rightarrow> HapticDeviceManager" where
  "clear_molecule p_this = p_this\<lparr>molecule := []\<rparr>"

definition add_atom :: "AtomData \<Rightarrow> HapticDeviceManager \<Rightarrow> HapticDeviceManager" where
  "add_atom atom p_this = p_this\<lparr>molecule := molecule p_this @ [atom]\<rparr>"

definition set_calc_gradient_in_loop :: "bool \<Rightarrow> HapticDeviceManager \<Rightarrow> HapticDeviceManager" where
  "set_calc_gradient_in_loop gradient_in_loop p_this =
     p_this\<lparr>calc_gradient_in_loop := gradient_in_loop\<rparr>"

subsection \<open>\<open>update_gradient\<close>\<close>

text \<open>
  An element of the \<open>pybind11::list\<close> is a Python object; \<open>pybind11::cast<double>\<close>
  yields its value or throws. A write through \<open>operator[]\<close> outside the table is
  undefined behaviour in C++; the model reports it as \<open>Out_of_bounds\<close>. An exception
  leaves the table as written so far, which \<open>Cast_error\<close> carries.
\<close>

datatype pyobject = PyFloat real | PyOther

fun cast_double :: "pyobject \<Rightarrow> real option" where
  "cast_double (PyFloat d) = Some d"
| "cast_double PyOther = None"

datatype gradient_error = Cast_error "real list list" | Out_of_bounds

text \<open>The first loop: rows \<open>std::vector<double>(3)\<close> are appended until the table has
  \<open>gradient_list.size() / 3\<close> rows; a table that is long enough is left as it is.\<close>

definition grow_gradient :: "real list list \<Rightarrow> nat \<Rightarrow> real list list" where
  "grow_gradient g list_size = g @ replicate (list_size div 3 - length g) [0, 0, 0]"

text \<open>The second loop, with its counter \<open>index\<close>; the right-hand side of the assignment
  is evaluated first.\<close>

fun write_gradient :: "pyobject list \<Rightarrow> int \<Rightarrow> real list list \<Rightarrow> gradient_error + real list list" where
  "write_gradient [] index g = Inr g"
| "write_gradient (v # rest) index g =
     (case cast_double v of
        None \<Rightarrow> Inl (Cast_error g)
      | Some d \<Rightarrow>
          (let row = nat (index div 3); col = nat (index mod 3)
           in if row < length g \<and> col < length (g ! row)
              then write_gradient rest (index + 1) (g[row := (g ! row)[col := d]])
              else Inl Out_of_bounds))"

definition update_gradient :: "pyobject list \<Rightarrow> real list list \<Rightarrow> gradient_error + real list list" where
  "update_gradient gradient_list g =
     write_gradient gradient_list 0 (grow_gradient g (length gradient_list))"

text \<open>The member function, on the manager; after undefined behaviour there is no manager
  to speak of.\<close>

definition update_gradient_manager ::
  "pyobject list \<Rightarrow> HapticDeviceManager \<Rightarrow> HapticDeviceManager option" where
  "update_gradient_manager gradient_list p_this =
     (case update_gradient gradient_list (gradient p_this) of
        Inr g \<Rightarrow> Some (p_this\<lparr>gradient := g\<rparr>)
      | Inl (Cast_error g) \<Rightarrow> Some (p_this\<lparr>gradient := g\<rparr>)
      | Inl Out_of_bounds \<Rightarrow> None)"

subsection \<open>\<open>exit_haptic_device\<close>\<close>

text \<open>The calls made to the device API, in order, and the manager afterwards.\<close>

datatype hd_call = HdStopScheduler | HdUnschedule nat | HdDisableDevice nat

definition exit_haptic_device :: "HapticDeviceManager \<Rightarrow> HapticDeviceManager \<times> hd_call list" where
  "exit_haptic_device p_this =
     (if ghHD p_this \<noteq> HD_INVALID_HANDLE
      then (p_this\<lparr>ghHD := HD_INVALID_HANDLE\<rparr>,
            [HdStopScheduler, HdUnschedule (hUpdateDeviceCallback p_this),
             HdDisableDevice (ghHD p_this)])
      else (p_this, [HdStopScheduler, HdUnschedule (hUpdateDeviceCallback p_this)]))"

section \<open>Notions used by the properties\<close>

text \<open>The loop session state: the five members that only the servicing loop writes.\<close>

definition session_state :: "HapticDeviceManager \<Rightarrow> bool \<times> bool \<times> bool \<times> hduVector3Dd \<times> int" where
  "session_state p =
     (first_button_down p, second_button_down p, call_first_time p, last_send_data p,
      last_event_timestamp p)"

text \<open>Four by four matrices, their product and the exact inverse.\<close>

definition is_mat4 :: "real list list \<Rightarrow> bool" where
  "is_mat4 A = (length A = 4 \<and> list_all (\<lambda>row. length row = 4) A)"

definition mat_mul4 :: "real list list \<Rightarrow> real list list \<Rightarrow> real list list" where
  "mat_mul4 A B =
     map (\<lambda>i. map (\<lambda>j. A ! i ! 0 * B ! 0 ! j + A ! i ! 1 * B ! 1 ! j +
                        A ! i ! 2 * B ! 2 ! j + A ! i ! 3 * B ! 3 ! j) [0, 1, 2, 3])
         [0, 1, 2, 3]"

definition is_inverse4 :: "real list list \<Rightarrow> real list list \<Rightarrow> bool" where
  "is_inverse4 Ainv A =
     (is_mat4 A \<and> is_mat4 Ainv \<and> mat_mul4 Ainv A = identity4 \<and> mat_mul4 A Ainv = identity4)"

text \<open>The notifications of one kind within a frame's notifications.\<close>

fun is_button1_event :: "callback_event \<Rightarrow> bool" where
  "is_button1_event First_button_down = True"
| "is_button1_event First_button_up = True"
| "is_button1_event _ = False"

fun is_button2_event :: "callback_event \<Rightarrow> bool" where
  "is_button2_event (Second_button_down _) = True"
| "is_button2_event Second_button_up = True"
| "is_button2_event _ = False"

fun is_move_event :: "callback_event \<Rightarrow> bool" where
  "is_move_event (Move _ _ _ _) = True"
| "is_move_event _ = False"

definition button1_events :: "frame_result \<Rightarrow> (nat \<times> callback_event) list" where
  "button1_events r = filter (\<lambda>n. is_button1_event (snd n)) (notifications r)"

definition button2_events :: "frame_result \<Rightarrow> (nat \<times> callback_event) list" where
  "button2_events r = filter (\<lambda>n. is_button2_event (snd n)) (notifications r)"

definition move_notifications :: "frame_result \<Rightarrow> (nat \<times> callback_event) list" where
  "move_notifications r = filter (\<lambda>n. is_move_event (snd n)) (notifications r)"

text \<open>One notification of the event for each entry of the listener registry, in order.\<close>

definition to_all :: "nat list \<Rightarrow> callback_event \<Rightarrow> (nat \<times> callback_event) list" where
  "to_all cbs ev = map (\<lambda>cb. (cb, ev)) cbs"

text \<open>The invariant of the scan in \<open>findClosestAtomIndex\<close> after the atoms \<open>pre\<close>.\<close>

definition closest_inv :: "AtomData list \<Rightarrow> HapticData \<Rightarrow> int \<times> real \<Rightarrow> bool" where
  "closest_inv pre data acc =
     (if pre = [] then fst acc = - 1
      else 0 \<le> fst acc \<and> nat (fst acc) < length pre \<and>
           snd acc = calculateDistance (pre ! nat (fst acc)) data \<and>
           (\<forall>j < length pre. snd acc \<le> calculateDistance (pre ! j) data) \<and>
           (\<forall>j < nat (fst acc). snd acc < calculateDistance (pre ! j) data))"

text \<open>Every row of a gradient table has three entries: the table starts empty and
  only rows \<open>std::vector<double>(3)\<close> are ever appended.\<close>

definition rows3 :: "real list list \<Rightarrow> bool" where
  "rows3 g = list_all (\<lambda>row. length row = 3) g"

text \<open>What the writes of \<open>vs\<close> from flat position \<open>n\<close> on leave behind, entry by entry.\<close>

definition written :: "real list \<Rightarrow> nat \<Rightarrow> real list list \<Rightarrow> real list list \<Rightarrow> bool" where
  "written vs n g g' =
     (length g' = length g \<and> rows3 g' \<and>
      (\<forall>r < length g. \<forall>c < 3.
         g' ! r ! c = (if n \<le> 3 * r + c \<and> 3 * r + c < n + length vs
                       then vs ! (3 * r + c - n) else g ! r ! c)))"

text \<open>The edge tests of the servicing loop for a button with mask \<open>b\<close>.\<close>

definition rising :: "int \<Rightarrow> int \<Rightarrow> int \<Rightarrow> bool" where
  "rising b cur lst = (cur AND b \<noteq> 0 \<and> lst AND b = 0)"

definition falling :: "int \<Rightarrow> int \<Rightarrow> int \<Rightarrow> bool" where
  "falling b cur lst = (cur AND b \<noteq> b \<and> lst AND b = b)"

text \<open>The device position against which a frame that passes the throttle compares: the
  last one sent, seeded with the frame's previous position on the first such frame.\<close>

definition prev_sent :: "HapticDeviceManager \<Rightarrow> hd_frame \<Rightarrow> hduVector3Dd" where
  "prev_sent p f = (if call_first_time p then last_position f else last_send_data p)"

text \<open>Worked examples: a frame read without a device error from a device whose force
  ceiling is 1, and a manager in guidance mode holding one atom of radius 1 at the origin
  and a gradient for id 0.\<close>

definition frame_at :: "hduVector3Dd \<Rightarrow> hduVector3Dd \<Rightarrow> int \<Rightarrow> int \<Rightarrow> int \<Rightarrow> hd_frame" where
  "frame_at pos lpos cur lst t =
     \<lparr>current_position = pos, last_position = lpos, current_buttons = cur, last_buttons = lst,
      device_error = False, nominal_max_continuous_force = 1, now = t\<rparr>"

definition scene_manager :: HapticDeviceManager where
  "scene_manager =
     set_calc_gradient_in_loop True
       (add_atom \<lparr>atom_index = 7, atom_pos_x = 0, atom_pos_y = 0, atom_pos_z = 0, atom_distance = 1\<rparr>
          (initial_manager\<lparr>gradient := [[1, 2, 3]]\<rparr>))"

text \<open>A manager with one listener and three atoms, the middle one of a given radius.\<close>

definition three_atom_manager :: "real \<Rightarrow> HapticDeviceManager" where
  "three_atom_manager radius =
     add_haptic_callback 5
       (add_atom \<lparr>atom_index = 12, atom_pos_x = 1, atom_pos_y = 1, atom_pos_z = 1, atom_distance = 1\<rparr>
         (add_atom \<lparr>atom_index = 11, atom_pos_x = 1, atom_pos_y = 2, atom_pos_z = 0, atom_distance = radius\<rparr>
           (add_atom \<lparr>atom_index = 10, atom_pos_x = 3, atom_pos_y = 1, atom_pos_z = 0, atom_distance = 1\<rparr>
              initial_manager)))"

section \<open>Properties\<close>

subsection \<open>Vectors and the force clamp\<close>

lemma vsimps: "vx (a, b, c) = a" "vy (a, b, c) = b" "vz (a, b, c) = c"
  by (simp_all add: vx_def vy_def vz_def)

lemma hduVecMagnitude_nonneg: "0 \<le> hduVecMagnitude v"
  by (simp add: hduVecMagnitude_def)

lemma hduVecMagnitude_scale:
  "hduVecMagnitude (hduVecScaleInPlace v s) = \<bar>s\<bar> * hduVecMagnitude v"
proof -
  have "vx v * s * (vx v * s) + vy v * s * (vy v * s) + vz v * s * (vz v * s)
        = s\<^sup>2 * (vx v * vx v + vy v * vy v + vz v * vz v)"
    by (simp add: power2_eq_square algebra_simps)
  then show ?thesis
    by (simp add: hduVecMagnitude_def hduVecScaleInPlace_def vsimps real_sqrt_mult)
qed

lemma normalize_as_scale:
  "hduVecNormalizeInPlace v = hduVecScaleInPlace v (1 / hduVecMagnitude v)"
  by (simp add: hduVecNormalizeInPlace_def hduVecScaleInPlace_def)

lemma hduVecMagnitude_normalize:
  "hduVecMagnitude v \<noteq> 0 \<Longrightarrow> hduVecMagnitude (hduVecNormalizeInPlace v) = 1"
  using hduVecMagnitude_nonneg[of v]
  by (simp add: normalize_as_scale hduVecMagnitude_scale)

lemma scaleForce_exceeding:
  assumes "0 \<le> force_clamp"
    and gt: "force_clamp < hduVecMagnitude (hduVecScaleInPlace force k)"
  shows "hduVecMagnitude (scaleForce force k force_clamp) = force_clamp"
proof -
  from assms have "hduVecMagnitude (hduVecScaleInPlace force k) \<noteq> 0" by linarith
  then have "hduVecMagnitude (hduVecNormalizeInPlace (hduVecScaleInPlace force k)) = 1"
    by (rule hduVecMagnitude_normalize)
  with assms show ?thesis
    by (simp add: scaleForce_def Let_def hduVecMagnitude_scale)
qed

lemma scaleForce_bound:
  assumes "0 \<le> force_clamp"
  shows "hduVecMagnitude (scaleForce force k force_clamp) \<le> force_clamp"
proof (cases "force_clamp < hduVecMagnitude (hduVecScaleInPlace force k)")
  case True
  with assms show ?thesis by (simp add: scaleForce_exceeding)
next
  case False
  then show ?thesis by (simp add: scaleForce_def Let_def)
qed

lemma scaleForce_renormalized:
  "scaleForce force k force_clamp =
     (if force_clamp < hduVecMagnitude (hduVecScaleInPlace force k)
      then hduVecScaleInPlace (hduVecScaleInPlace force k)
             (force_clamp / hduVecMagnitude (hduVecScaleInPlace force k))
      else hduVecScaleInPlace force k)"
  by (simp add: scaleForce_def Let_def hduVecNormalizeInPlace_def hduVecScaleInPlace_def vsimps)

text \<open>
  C1. With a force ceiling that is not negative: in guidance mode with the second button
  flag set, \<open>setForce\<close> writes \<open>(atom_pos - gradient) - atom_pos\<close> scaled by 0.8, rescaled
  to the ceiling's magnitude when it is longer than the ceiling; the written force is
  never longer than the ceiling, and has exactly the ceiling's magnitude when the scaled
  force exceeds it. In every other case the written force is the zero vector.
\<close>

theorem setForce_guidance_clamped:
  assumes "0 \<le> force_clamp"
  shows "(calc_gradient_in_loop p_this \<and> second_button_down p_this \<longrightarrow>
            (let scaled = ((8 / 10) * ((vx atom_pos - vx atom_gradient) - vx atom_pos),
                           (8 / 10) * ((vy atom_pos - vy atom_gradient) - vy atom_pos),
                           (8 / 10) * ((vz atom_pos - vz atom_gradient) - vz atom_pos))
             in setForce position atom_pos atom_gradient p_this force_clamp =
                  (if hduVecMagnitude scaled > force_clamp
                   then hduVecScaleInPlace scaled (force_clamp / hduVecMagnitude scaled)
                   else scaled) \<and>
                (hduVecMagnitude scaled > force_clamp \<longrightarrow>
                   hduVecMagnitude (setForce position atom_pos atom_gradient p_this force_clamp)
                     = force_clamp))) \<and>
         (\<not> (calc_gradient_in_loop p_this \<and> second_button_down p_this) \<longrightarrow>
            setForce position atom_pos atom_gradient p_this force_clamp = (0, 0, 0)) \<and>
         hduVecMagnitude (setForce position atom_pos atom_gradient p_this force_clamp)
           \<le> force_clamp"
proof -
  let ?raw = "hduVecSubtract (vx atom_pos - vx atom_gradient, vy atom_pos - vy atom_gradient,
                              vz atom_pos - vz atom_gradient) atom_pos"
  let ?scaled = "((8 / 10) * ((vx atom_pos - vx atom_gradient) - vx atom_pos),
                  (8 / 10) * ((vy atom_pos - vy atom_gradient) - vy atom_pos),
                  (8 / 10) * ((vz atom_pos - vz atom_gradient) - vz atom_pos))"
  have sc: "hduVecScaleInPlace ?raw (8 / 10) = ?scaled"
    by (simp add: hduVecScaleInPlace_def hduVecSubtract_def vsimps)
  have zero: "hduVecMagnitude (0, 0, 0) = 0"
    by (simp add: hduVecMagnitude_def vsimps)
  show ?thesis
  proof (cases "calc_gradient_in_loop p_this \<and> second_button_down p_this")
    case True
    then have eq: "setForce position atom_pos atom_gradient p_this force_clamp =
                     scaleForce ?raw (8 / 10) force_clamp"
      by (simp add: setForce_def Let_def)
    have a: "scaleForce ?raw (8 / 10) force_clamp =
               (if hduVecMagnitude ?scaled > force_clamp
                then hduVecScaleInPlace ?scaled (force_clamp / hduVecMagnitude ?scaled)
                else ?scaled)"
      unfolding scaleForce_renormalized sc by simp
    have b: "hduVecMagnitude ?scaled > force_clamp \<Longrightarrow>
               hduVecMagnitude (scaleForce ?raw (8 / 10) force_clamp) = force_clamp"
      using scaleForce_exceeding[OF assms, of ?raw "8 / 10"] unfolding sc by simp
    have c: "hduVecMagnitude (scaleForce ?raw (8 / 10) force_clamp) \<le> force_clamp"
      using assms by (rule scaleForce_bound)
    from True a b c show ?thesis
      unfolding eq Let_def by simp
  next
    case False
    then have "setForce position atom_pos atom_gradient p_this force_clamp = (0, 0, 0)"
      by (auto simp add: setForce_def)
    with False assms zero show ?thesis by auto
  qed
qed

theorem setForce_guidance_clamped_witness:
  "(0::real) \<le> 1 \<and>
   setForce (0, 0, 0) (1, 2, 3) (5, 0, 0)
     (initial_manager\<lparr>calc_gradient_in_loop := True, second_button_down := True\<rparr>) 1
     = (- 1, 0, 0) \<and>
   hduVecMagnitude (setForce (0, 0, 0) (1, 2, 3) (5, 0, 0)
     (initial_manager\<lparr>calc_gradient_in_loop := True, second_button_down := True\<rparr>) 1) = 1 \<and>
   setForce (0, 0, 0) (1, 2, 3) (5, 0, 0) initial_manager 1 = (0, 0, 0)"
proof -
  have h: "(0::real) \<le> 1" by simp
  show ?thesis
    using setForce_guidance_clamped[OF h, of
        "initial_manager\<lparr>calc_gradient_in_loop := True, second_button_down := True\<rparr>"
        "(1, 2, 3)" "(5, 0, 0)" "(0, 0, 0)"]
      setForce_guidance_clamped[OF h, of initial_manager "(1, 2, 3)" "(5, 0, 0)" "(0, 0, 0)"]
    by (simp add: initial_manager_def vsimps hduVecMagnitude_def hduVecScaleInPlace_def Let_def)
qed

subsection \<open>Nearest atom and containment\<close>

lemma closest_inv_step:
  assumes "closest_inv pre data (c, b)"
  shows "closest_inv (pre @ [a]) data
           (if c = - 1 \<or> calculateDistance a data < b
            then (int (length pre), calculateDistance a data) else (c, b))"
proof (cases "pre = []")
  case True
  with assms show ?thesis by (simp add: closest_inv_def)
next
  case False
  with assms have c: "0 \<le> c" "nat c < length pre" "b = calculateDistance (pre ! nat c) data"
    and mn: "\<forall>j < length pre. b \<le> calculateDistance (pre ! j) data"
    and fs: "\<forall>j < nat c. b < calculateDistance (pre ! j) data"
    by (auto simp: closest_inv_def)
  show ?thesis
  proof (cases "calculateDistance a data < b")
    case True
    with c mn show ?thesis
      by (auto simp: closest_inv_def nth_append less_Suc_eq)
  next
    case False
    with c mn fs show ?thesis
      by (auto simp: closest_inv_def nth_append less_Suc_eq)
  qed
qed

lemma closest_loop_inv:
  "closest_inv pre data acc \<Longrightarrow>
   closest_inv (pre @ rest) data (closest_loop rest data (int (length pre)) acc)"
proof (induction rest arbitrary: pre acc)
  case Nil
  then show ?case by (cases acc) simp
next
  case (Cons a rest)
  obtain c b where acc: "acc = (c, b)" by (cases acc)
  from Cons.prems have "closest_inv (pre @ [a]) data
     (if c = - 1 \<or> calculateDistance a data < b
      then (int (length pre), calculateDistance a data) else (c, b))"
    unfolding acc by (rule closest_inv_step)
  from Cons.IH[OF this] show ?case
    by (auto simp: acc Let_def add.commute split: if_splits)
qed

lemma findClosestAtomIndex_inv:
  "closest_inv mol data
     (closest_loop mol data 0 (- 1, - 1))"
  using closest_loop_inv[of "[]" data "(- 1, - 1)" mol]
  by (simp add: closest_inv_def)

lemma calculateDistance_euclidean:
  "calculateDistance atom data =
     sqrt ((atom_pos_x atom - pos_x data)\<^sup>2 + (atom_pos_y atom - pos_y data)\<^sup>2 +
           (atom_pos_z atom - pos_z data)\<^sup>2)"
  by (simp add: calculateDistance_def Let_def power2_eq_square)

lemma findClosestAtomIndex_minimal:
  assumes "mol \<noteq> []"
  shows "0 \<le> findClosestAtomIndex mol data"
    and "nat (findClosestAtomIndex mol data) < length mol"
    and "\<forall>j < length mol.
           calculateDistance (mol ! nat (findClosestAtomIndex mol data)) data
             \<le> calculateDistance (mol ! j) data"
    and "\<forall>j < nat (findClosestAtomIndex mol data).
           calculateDistance (mol ! nat (findClosestAtomIndex mol data)) data
             < calculateDistance (mol ! j) data"
  using findClosestAtomIndex_inv[of mol data] assms
  by (auto simp: closest_inv_def findClosestAtomIndex_def)

text \<open>
  C2. On a non-empty atom list \<open>findClosestAtomIndex\<close> returns a valid index whose
  atom has minimal Euclidean distance (the square root of the sum of the squared
  coordinate differences) to the pointer, and every atom before it is strictly farther
  away, so it is the lowest index among ties; on the empty list it returns \<open>-1\<close>.
\<close>

theorem findClosestAtomIndex_euclidean_minimum:
  "(mol \<noteq> [] \<longrightarrow>
      0 \<le> findClosestAtomIndex mol data \<and>
      nat (findClosestAtomIndex mol data) < length mol \<and>
      (\<forall>j < length mol.
         sqrt ((atom_pos_x (mol ! nat (findClosestAtomIndex mol data)) - pos_x data)\<^sup>2 +
               (atom_pos_y (mol ! nat (findClosestAtomIndex mol data)) - pos_y data)\<^sup>2 +
               (atom_pos_z (mol ! nat (findClosestAtomIndex mol data)) - pos_z data)\<^sup>2)
           \<le> sqrt ((atom_pos_x (mol ! j) - pos_x data)\<^sup>2 +
                     (atom_pos_y (mol ! j) - pos_y data)\<^sup>2 +
                     (atom_pos_z (mol ! j) - pos_z data)\<^sup>2)) \<and>
      (\<forall>j < nat (findClosestAtomIndex mol data).
         sqrt ((atom_pos_x (mol ! nat (findClosestAtomIndex mol data)) - pos_x data)\<^sup>2 +
               (atom_pos_y (mol ! nat (findClosestAtomIndex mol data)) - pos_y data)\<^sup>2 +
               (atom_pos_z (mol ! nat (findClosestAtomIndex mol data)) - pos_z data)\<^sup>2)
           < sqrt ((atom_pos_x (mol ! j) - pos_x data)\<^sup>2 +
                   (atom_pos_y (mol ! j) - pos_y data)\<^sup>2 +
                   (atom_pos_z (mol ! j) - pos_z data)\<^sup>2))) \<and>
   findClosestAtomIndex [] data = - 1"
proof (intro conjI impI)
  assume ne: "mol \<noteq> []"
  show "0 \<le> findClosestAtomIndex mol data"
    using ne by (rule findClosestAtomIndex_minimal(1))
  show "nat (findClosestAtomIndex mol data) < length mol"
    using ne by (rule findClosestAtomIndex_minimal(2))
  show "\<forall>j < length mol.
         sqrt ((atom_pos_x (mol ! nat (findClosestAtomIndex mol data)) - pos_x data)\<^sup>2 +
               (atom_pos_y (mol ! nat (findClosestAtomIndex mol data)) - pos_y data)\<^sup>2 +
               (atom_pos_z (mol ! nat (findClosestAtomIndex mol data)) - pos_z data)\<^sup>2)
           \<le> sqrt ((atom_pos_x (mol ! j) - pos_x data)\<^sup>2 +
                     (atom_pos_y (mol ! j) - pos_y data)\<^sup>2 +
                     (atom_pos_z (mol ! j) - pos_z data)\<^sup>2)"
    using findClosestAtomIndex_minimal(3)[OF ne, of data]
    unfolding calculateDistance_euclidean .
  show "\<forall>j < nat (findClosestAtomIndex mol data).
         sqrt ((atom_pos_x (mol ! nat (findClosestAtomIndex mol data)) - pos_x data)\<^sup>2 +
               (atom_pos_y (mol ! nat (findClosestAtomIndex mol data)) - pos_y data)\<^sup>2 +
               (atom_pos_z (mol ! nat (findClosestAtomIndex mol data)) - pos_z data)\<^sup>2)
           < sqrt ((atom_pos_x (mol ! j) - pos_x data)\<^sup>2 +
                   (atom_pos_y (mol ! j) - pos_y data)\<^sup>2 +
                   (atom_pos_z (mol ! j) - pos_z data)\<^sup>2)"
    using findClosestAtomIndex_minimal(4)[OF ne, of data]
    unfolding calculateDistance_euclidean .
next
  show "findClosestAtomIndex [] data = - 1"
    by (simp add: findClosestAtomIndex_def)
qed

text \<open>A pointer at \<open>(1, 1, 0)\<close> and three atoms at distances 2, 1 and 1 from it: the
  first of the two nearest is found.\<close>

theorem findClosestAtomIndex_euclidean_minimum_witness:
  "[\<lparr>atom_index = 10, atom_pos_x = 3, atom_pos_y = 1, atom_pos_z = 0, atom_distance = 1\<rparr>,
    \<lparr>atom_index = 11, atom_pos_x = 1, atom_pos_y = 2, atom_pos_z = 0, atom_distance = 1\<rparr>,
    \<lparr>atom_index = 12, atom_pos_x = 1, atom_pos_y = 1, atom_pos_z = 1, atom_distance = 1\<rparr>] \<noteq> [] \<and>
   findClosestAtomIndex
     [\<lparr>atom_index = 10, atom_pos_x = 3, atom_pos_y = 1, atom_pos_z = 0, atom_distance = 1\<rparr>,
      \<lparr>atom_index = 11, atom_pos_x = 1, atom_pos_y = 2, atom_pos_z = 0, atom_distance = 1\<rparr>,
      \<lparr>atom_index = 12, atom_pos_x = 1, atom_pos_y = 1, atom_pos_z = 1, atom_distance = 1\<rparr>]
     \<lparr>pos_x = 1, pos_y = 1, pos_z = 0\<rparr> = 1 \<and>
   sqrt ((1 - 1)\<^sup>2 + (2 - 1)\<^sup>2 + (0 - 0)\<^sup>2) = (1 :: real) \<and>
   sqrt ((3 - 1)\<^sup>2 + (1 - 1)\<^sup>2 + (0 - 0)\<^sup>2) = (2 :: real) \<and>
   sqrt ((1 - 1)\<^sup>2 + (1 - 1)\<^sup>2 + (1 - 0)\<^sup>2) = (1 :: real) \<and>
   findClosestAtomIndex [] \<lparr>pos_x = 1, pos_y = 1, pos_z = 0\<rparr> = - 1"
  using findClosestAtomIndex_euclidean_minimum[of
     "[\<lparr>atom_index = 10, atom_pos_x = 3, atom_pos_y = 1, atom_pos_z = 0, atom_distance = 1\<rparr>,
       \<lparr>atom_index = 11, atom_pos_x = 1, atom_pos_y = 2, atom_pos_z = 0, atom_distance = 1\<rparr>,
       \<lparr>atom_index = 12, atom_pos_x = 1, atom_pos_y = 1, atom_pos_z = 1, atom_distance = 1\<rparr>]"
     "\<lparr>pos_x = 1, pos_y = 1, pos_z = 0\<rparr>"]
  by (simp add: findClosestAtomIndex_def calculateDistance_def Let_def)

subsection \<open>The gradient table\<close>

lemma div3_less_iff: "(n div 3 < m) = (n < 3 * (m::nat))"
  using div_less_iff_less_mult[of 3 n m] by (simp add: mult.commute)

lemma flat_div: "c < 3 \<Longrightarrow> (3 * r + c) div 3 = (r::nat)"
  by simp

lemma flat_mod: "c < 3 \<Longrightarrow> (3 * r + c) mod 3 = (c::nat)"
  by simp

lemma flat_hit: "c < 3 \<Longrightarrow> (r = n div 3 \<and> c = n mod 3) \<longleftrightarrow> 3 * r + c = (n::nat)"
proof
  assume "c < 3" "r = n div 3 \<and> c = n mod 3"
  then show "3 * r + c = n" by simp
next
  assume c: "c < 3" and "3 * r + c = n"
  then have "n = 3 * r + c" by simp
  then show "r = n div 3 \<and> c = n mod 3"
    using flat_div[OF c, of r] flat_mod[OF c, of r] by simp
qed

lemma nat_int_div3: "nat (int n div 3) = n div 3"
  by (simp add: nat_div_distrib)

lemma nat_int_mod3: "nat (int n mod 3) = n mod 3"
  by (simp add: nat_mod_distrib)

lemma mult3_div3: "n mod 3 = 0 \<Longrightarrow> 3 * (n div 3) = (n::nat)"
  using mult_div_mod_eq[of 3 n] by simp

lemma mult3_div3_less:
  assumes "n mod 3 \<noteq> 0"
  shows "3 * (n div 3) < (n::nat)"
proof -
  define q where "q = n div 3"
  define r where "r = n mod 3"
  have "3 * q + r = n" unfolding q_def r_def by (rule mult_div_mod_eq)
  moreover have "0 < r" using assms unfolding r_def by simp
  ultimately show ?thesis unfolding q_def[symmetric] by linarith
qed

lemma rows3_nth: "rows3 g \<Longrightarrow> i < length g \<Longrightarrow> length (g ! i) = 3"
  by (simp add: rows3_def list_all_length)

lemma rows3_update:
  assumes a: "rows3 g"
  shows "rows3 (g[r := (g ! r)[c := d]])"
  unfolding rows3_def list_all_length
proof (intro allI impI)
  fix n assume n: "n < length (g[r := (g ! r)[c := d]])"
  then have "length (g ! n) = 3" using a by (simp add: rows3_nth)
  then show "length (g[r := (g ! r)[c := d]] ! n) = 3"
    using n by (cases "n = r") simp_all
qed

lemma rows3_grow: "rows3 g \<Longrightarrow> rows3 (grow_gradient g n)"
  by (auto simp: rows3_def grow_gradient_def list_all_iff)

lemma length_grow: "length (grow_gradient g n) = max (length g) (n div 3)"
  by (simp add: grow_gradient_def)

lemma write_gradient_step:
  assumes "n div 3 < length g" "n mod 3 < length (g ! (n div 3))"
  shows "write_gradient (PyFloat d # rest) (int n) g =
           write_gradient rest (int (Suc n)) (g[n div 3 := (g ! (n div 3))[n mod 3 := d]])"
  using assms by (simp add: nat_int_div3 nat_int_mod3 Let_def add.commute)

lemma write_gradient_stop:
  assumes "\<not> (n div 3 < length g \<and> n mod 3 < length (g ! (n div 3)))"
  shows "write_gradient (PyFloat d # rest) (int n) g = Inl Out_of_bounds"
  using assms by (auto simp add: nat_int_div3 nat_int_mod3 Let_def)

lemma update_entry:
  assumes r': "r' < length g" and c': "c' < 3" and len: "length (g ! r') = 3"
  shows "g[n div 3 := (g ! (n div 3))[n mod 3 := d]] ! r' ! c' =
           (if 3 * r' + c' = n then d else g ! r' ! c')"
proof (cases "r' = n div 3")
  case True
  have "(c' = n mod 3) = (3 * r' + c' = n)"
    using flat_hit[OF c', of r' n] True by simp
  with True r' c' len show ?thesis
    by (auto simp add: nth_list_update)
next
  case False
  then have "3 * r' + c' \<noteq> n" using flat_hit[OF c', of r' n] by simp
  with False r' show ?thesis by simp
qed

lemma write_gradient_floats:
  "rows3 g \<Longrightarrow> n + length vs \<le> 3 * length g \<Longrightarrow>
   \<exists>g'. write_gradient (map PyFloat vs) (int n) g = Inr g' \<and> written vs n g g'"
proof (induction vs arbitrary: n g)
  case Nil
  then show ?case by (simp add: written_def)
next
  case (Cons d ds)
  let ?g1 = "g[n div 3 := (g ! (n div 3))[n mod 3 := d]]"
  from Cons.prems have "n < 3 * length g" by simp
  then have r: "n div 3 < length g" by (simp add: div3_less_iff)
  with Cons.prems have c: "n mod 3 < length (g ! (n div 3))" by (simp add: rows3_nth)
  have g1: "rows3 ?g1" using Cons.prems(1) by (rule rows3_update)
  have "Suc n + length ds \<le> 3 * length ?g1" using Cons.prems by simp
  from Cons.IH[OF g1 this] obtain g' where
    w: "write_gradient (map PyFloat ds) (int (Suc n)) ?g1 = Inr g'"
    and wr: "written ds (Suc n) ?g1 g'"
    by blast
  have step: "write_gradient (map PyFloat (d # ds)) (int n) g = Inr g'"
    using w write_gradient_step[OF r c, of d "map PyFloat ds"] by simp
  have "written (d # ds) n g g'"
    unfolding written_def
  proof (intro conjI allI impI)
    show "length g' = length g" using wr by (simp add: written_def)
    show "rows3 g'" using wr by (simp add: written_def)
    fix r' c' assume r': "r' < length g" and c': "c' < (3::nat)"
    have len: "length (g ! r') = 3" using Cons.prems(1) r' by (rule rows3_nth)
    have e: "g' ! r' ! c' = (if Suc n \<le> 3 * r' + c' \<and> 3 * r' + c' < Suc n + length ds
                       then ds ! (3 * r' + c' - Suc n) else ?g1 ! r' ! c')"
      using wr r' c' by (simp add: written_def)
    have old: "?g1 ! r' ! c' = (if 3 * r' + c' = n then d else g ! r' ! c')"
      using r' c' len by (rule update_entry)
    show "g' ! r' ! c' = (if n \<le> 3 * r' + c' \<and> 3 * r' + c' < n + length (d # ds)
                       then (d # ds) ! (3 * r' + c' - n) else g ! r' ! c')"
    proof (cases "3 * r' + c' = n")
      case True
      then show ?thesis unfolding e old by simp
    next
      case False
      show ?thesis
      proof (cases "Suc n \<le> 3 * r' + c'")
        case True
        then have "3 * r' + c' - n = Suc (3 * r' + c' - Suc n)" by simp
        with True False show ?thesis unfolding e old by simp
      next
        case b: False
        with False have "\<not> n \<le> 3 * r' + c'" by simp
        with b False show ?thesis unfolding e old by simp
      qed
    qed
  qed
  with step show ?case by blast
qed

lemma write_gradient_in_bounds:
  "rows3 g \<Longrightarrow> n + length gl \<le> 3 * length g \<Longrightarrow>
   write_gradient gl (int n) g \<noteq> Inl Out_of_bounds"
proof (induction gl arbitrary: n g)
  case Nil
  then show ?case by simp
next
  case (Cons v rest)
  from Cons.prems have "n < 3 * length g" by simp
  then have r: "n div 3 < length g" by (simp add: div3_less_iff)
  with Cons.prems have c: "n mod 3 < length (g ! (n div 3))" by (simp add: rows3_nth)
  show ?case
  proof (cases v)
    case (PyFloat d)
    let ?g1 = "g[n div 3 := (g ! (n div 3))[n mod 3 := d]]"
    have g1: "rows3 ?g1" using Cons.prems(1) by (rule rows3_update)
    have "Suc n + length rest \<le> 3 * length ?g1" using Cons.prems by simp
    from Cons.IH[OF g1 this] show ?thesis
      unfolding PyFloat write_gradient_step[OF r c] .
  next
    case PyOther
    then show ?thesis by simp
  qed
qed

lemma write_gradient_overrun:
  "vs \<noteq> [] \<Longrightarrow> 3 * length g < n + length vs \<Longrightarrow>
   write_gradient (map PyFloat vs) (int n) g = Inl Out_of_bounds"
proof (induction vs arbitrary: n g)
  case Nil
  then show ?case by simp
next
  case (Cons d ds)
  show ?case
  proof (cases "n div 3 < length g \<and> n mod 3 < length (g ! (n div 3))")
    case False
    then show ?thesis using write_gradient_stop[of n g d "map PyFloat ds"] by simp
  next
    case True
    then have "n < 3 * length g" by (simp add: div3_less_iff)
    with Cons.prems have ne: "ds \<noteq> []" by auto
    have "3 * length (g[n div 3 := (g ! (n div 3))[n mod 3 := d]]) < Suc n + length ds"
      using Cons.prems by simp
    from Cons.IH[OF ne this] True show ?thesis
      using write_gradient_step[of n g d "map PyFloat ds"] by simp
  qed
qed

lemma list3_eq:
  assumes "length xs = 3"
  shows "xs = [xs ! 0, xs ! 1, xs ! 2]"
proof -
  from assms obtain a b c where "xs = [a, b, c]"
    by (auto simp: numeral_3_eq_3 length_Suc_conv)
  then show ?thesis by simp
qed

text \<open>
  C7, as the code has it. A call of \<open>update_gradient\<close> with \<open>3 * k\<close> numbers
  succeeds; afterwards the table has \<open>max\<close> of its previous length and \<open>k\<close> rows, its
  first \<open>k\<close> rows are the \<open>k\<close> 3-vectors of the list, and every row from \<open>k\<close> on keeps
  its previous value. The table consists of exactly the \<open>k\<close> vectors when it had at most
  \<open>k\<close> rows before.
\<close>

theorem update_gradient_overwrites_rows:
  assumes g: "rows3 g" and len: "length vs = 3 * k"
  shows "\<exists>g'. update_gradient (map PyFloat vs) g = Inr g' \<and>
           length g' = max (length g) k \<and>
           (\<forall>i < k. g' ! i = [vs ! (3 * i), vs ! (3 * i + 1), vs ! (3 * i + 2)]) \<and>
           (\<forall>i. k \<le> i \<and> i < length g \<longrightarrow> g' ! i = g ! i) \<and>
           (length g \<le> k \<longrightarrow>
              g' = map (\<lambda>i. [vs ! (3 * i), vs ! (3 * i + 1), vs ! (3 * i + 2)]) [0..<k])"
proof -
  let ?g0 = "grow_gradient g (length vs)"
  have g0: "rows3 ?g0" using g by (rule rows3_grow)
  have l0: "length ?g0 = max (length g) k" by (simp add: length_grow len)
  have "k \<le> length ?g0" using l0 by simp
  then have "0 + length vs \<le> 3 * length ?g0" unfolding len by simp
  from write_gradient_floats[OF g0 this] obtain g' where
    w: "write_gradient (map PyFloat vs) 0 ?g0 = Inr g'" and wr: "written vs 0 ?g0 g'"
    by auto
  have lg': "length g' = max (length g) k" using wr l0 by (simp add: written_def)
  have r3: "rows3 g'" using wr by (simp add: written_def)
  have entry: "g' ! r ! c = (if 3 * r + c < length vs then vs ! (3 * r + c) else ?g0 ! r ! c)"
    if "r < length ?g0" "c < 3" for r c
    using wr that by (simp add: written_def)
  have new: "g' ! i = [vs ! (3 * i), vs ! (3 * i + 1), vs ! (3 * i + 2)]" if "i < k" for i
  proof -
    have i: "i < length ?g0" using that l0 by simp
    then have "length (g' ! i) = 3" using r3 lg' l0 by (simp add: rows3_nth)
    then have "g' ! i = [g' ! i ! 0, g' ! i ! 1, g' ! i ! 2]" by (rule list3_eq)
    moreover have "g' ! i ! 0 = vs ! (3 * i)" "g' ! i ! 1 = vs ! (3 * i + 1)"
      "g' ! i ! 2 = vs ! (3 * i + 2)"
      using entry[OF i, of 0] entry[OF i, of 1] entry[OF i, of 2] that len by simp_all
    ultimately show ?thesis by simp
  qed
  have old: "g' ! i = g ! i" if "k \<le> i" "i < length g" for i
  proof -
    have i: "i < length ?g0" using that l0 by simp
    have gi: "?g0 ! i = g ! i" using that by (simp add: grow_gradient_def nth_append)
    have l1: "length (g' ! i) = 3" using r3 lg' l0 i by (simp add: rows3_nth)
    have l2: "length (g ! i) = 3" using g that by (simp add: rows3_nth)
    have "g' ! i ! c = g ! i ! c" if "c < 3" for c
      using entry[OF i that] \<open>k \<le> i\<close> len gi by simp
    then show ?thesis using l1 l2 by (simp add: list_eq_iff_nth_eq)
  qed
  have exact: "g' = map (\<lambda>i. [vs ! (3 * i), vs ! (3 * i + 1), vs ! (3 * i + 2)]) [0..<k]"
    if "length g \<le> k"
    using that lg' new by (simp add: list_eq_iff_nth_eq)
  from w lg' new old exact show ?thesis
    by (simp add: update_gradient_def)
qed

text \<open>Six numbers written into a table of one row: the table becomes the two vectors.\<close>

theorem update_gradient_overwrites_rows_witness:
  "rows3 [[1, 2, 3]] \<and> length [4, 5, 6, 7, 8, 9 :: real] = 3 * 2 \<and>
   update_gradient (map PyFloat [4, 5, 6, 7, 8, 9]) [[1, 2, 3]] = Inr [[4, 5, 6], [7, 8, 9]]"
proof -
  have h1: "rows3 [[1, 2, 3]]" by (simp add: rows3_def)
  have h2: "length [4, 5, 6, 7, 8, 9 :: real] = 3 * 2" by simp
  from update_gradient_overwrites_rows[OF h1 h2] obtain g' where
    r: "update_gradient (map PyFloat [4, 5, 6, 7, 8, 9]) [[1, 2, 3]] = Inr g'"
    and e: "length [[1, 2, 3 :: real]] \<le> 2 \<longrightarrow>
            g' = map (\<lambda>i. [[4, 5, 6, 7, 8, 9] ! (3 * i), [4, 5, 6, 7, 8, 9] ! (3 * i + 1),
                             [4, 5, 6, 7, 8, 9] ! (3 * i + 2)]) [0..<2]"
    by blast
  have "[0..<2] = [0, 1]" by (simp add: upt_rec)
  with e have "g' = [[4, 5, 6], [7, 8, 9]]" by simp
  with r h1 h2 show ?thesis by simp
qed

text \<open>The claim as stated fails when the table was longer than the new list: a table of
  two rows updated with three numbers keeps its second row.\<close>

theorem update_gradient_not_replaced_counterexample:
  "update_gradient [PyFloat 7, PyFloat 8, PyFloat 9] [[1, 2, 3], [4, 5, 6]]
     = Inr [[7, 8, 9], [4, 5, 6]] \<and>
   update_gradient [PyFloat 7, PyFloat 8, PyFloat 9] [[1, 2, 3], [4, 5, 6]]
     \<noteq> Inr [[7, 8, 9]]"
  by (simp add: update_gradient_def grow_gradient_def)

text \<open>
  C9. On a table whose rows have three entries, a call of \<open>update_gradient\<close> with a list
  whose length is a multiple of 3 makes no write outside the grown table, whatever the
  elements are. A list of numbers whose length is not a multiple of 3 and exceeds three
  times the size of the table runs into a write outside the table.
\<close>

theorem update_gradient_in_bounds:
  "(rows3 g \<and> length gl mod 3 = 0 \<longrightarrow> update_gradient gl g \<noteq> Inl Out_of_bounds) \<and>
   (length vs mod 3 \<noteq> 0 \<and> 3 * length g < length vs \<longrightarrow>
      update_gradient (map PyFloat vs) g = Inl Out_of_bounds)"
proof (intro conjI impI)
  assume a: "rows3 g \<and> length gl mod 3 = 0"
  then have r: "rows3 (grow_gradient g (length gl))" by (simp add: rows3_grow)
  from a have m: "length gl mod 3 = 0" by simp
  have "3 * (length gl div 3) = length gl" using m by (rule mult3_div3)
  moreover have "length gl div 3 \<le> length (grow_gradient g (length gl))"
    by (simp add: length_grow)
  ultimately have "0 + length gl \<le> 3 * length (grow_gradient g (length gl))"
    by linarith
  from write_gradient_in_bounds[OF r this]
  show "update_gradient gl g \<noteq> Inl Out_of_bounds" by (simp add: update_gradient_def)
next
  assume a: "length vs mod 3 \<noteq> 0 \<and> 3 * length g < length vs"
  then have ne: "vs \<noteq> []" by auto
  from a have m: "length vs mod 3 \<noteq> 0" by simp
  have "3 * (length vs div 3) < length vs" using m by (rule mult3_div3_less)
  moreover have "length (grow_gradient g (length vs)) = max (length g) (length vs div 3)"
    by (rule length_grow)
  ultimately have "3 * length (grow_gradient g (length vs)) < 0 + length vs"
    using a by (simp add: max_def)
  from write_gradient_overrun[OF ne this]
  show "update_gradient (map PyFloat vs) g = Inl Out_of_bounds"
    by (simp add: update_gradient_def)
qed

text \<open>Three numbers into the empty table are written in bounds; four numbers are not.\<close>

theorem update_gradient_in_bounds_witness:
  "rows3 [] \<and> length [PyFloat 1, PyFloat 2, PyFloat 3] mod 3 = 0 \<and>
   update_gradient [PyFloat 1, PyFloat 2, PyFloat 3] [] = Inr [[1, 2, 3]] \<and>
   length [1, 2, 3, 4 :: real] mod 3 \<noteq> 0 \<and> 3 * length ([] :: real list list) < length [1, 2, 3, 4 :: real] \<and>
   update_gradient (map PyFloat [1, 2, 3, 4]) [] = Inl Out_of_bounds"
  using update_gradient_in_bounds[of "[]" "[PyFloat 1, PyFloat 2, PyFloat 3]" "[1, 2, 3, 4]"]
  by (simp add: rows3_def update_gradient_def grow_gradient_def)

subsection \<open>The servicing loop\<close>

lemma to_all_Nil: "to_all [] ev = []"
  by (simp add: to_all_def)

lemma for_callbacks_snd:
  "snd (for_callbacks cbs assign ev st) = snd st @ to_all cbs ev"
proof (induction cbs arbitrary: st)
  case Nil
  show ?case by (cases st) (simp add: to_all_def)
next
  case (Cons cb cbs)
  show ?case by (cases st) (simp add: Cons.IH to_all_def)
qed

lemma for_callbacks_fst:
  assumes "\<And>q. assign (assign q) = assign q"
  shows "fst (for_callbacks cbs assign ev st) = (if cbs = [] then fst st else assign (fst st))"
proof (induction cbs arbitrary: st)
  case Nil
  show ?case by (cases st) simp
next
  case (Cons cb cbs)
  show ?case by (cases st) (simp add: Cons.IH assms)
qed

lemma button_transitions_callbacks:
  "callbacks (fst (button_transitions cur lst sel st)) = callbacks (fst st)"
  by (simp add: button_transitions_def for_callbacks_fst Let_def)

lemma button_transitions_snd:
  "snd (button_transitions cur lst sel st) =
     snd st @
     (if rising HD_DEVICE_BUTTON_1 cur lst then to_all (callbacks (fst st)) First_button_down else []) @
     (if falling HD_DEVICE_BUTTON_1 cur lst then to_all (callbacks (fst st)) First_button_up else []) @
     (if rising HD_DEVICE_BUTTON_2 cur lst then to_all (callbacks (fst st)) (Second_button_down sel) else []) @
     (if falling HD_DEVICE_BUTTON_2 cur lst then to_all (callbacks (fst st)) Second_button_up else [])"
  by (simp add: button_transitions_def for_callbacks_fst for_callbacks_snd rising_def falling_def Let_def
        HD_DEVICE_BUTTON_1_def HD_DEVICE_BUTTON_2_def)

lemma button_transitions_no_listener:
  "callbacks (fst st) = [] \<Longrightarrow> button_transitions cur lst sel st = st"
  by (cases st) (simp add: button_transitions_def Let_def)

lemma button_transitions_session:
  "last_event_timestamp (fst (button_transitions cur lst sel st)) = last_event_timestamp (fst st)"
  "call_first_time (fst (button_transitions cur lst sel st)) = call_first_time (fst st)"
  "last_send_data (fst (button_transitions cur lst sel st)) = last_send_data (fst st)"
  "transformation_matrix (fst (button_transitions cur lst sel st)) = transformation_matrix (fst st)"
  by (simp_all add: button_transitions_def for_callbacks_fst Let_def)

lemma move_events_snd:
  "snd (move_events f data st) =
     snd st @
     (if kMinDelay \<le> now f - last_event_timestamp (fst st) \<and>
         (pos_x data \<noteq> pos_x (transformToAppCoordinates (prev_sent (fst st) f)
                                  (transformation_matrix (fst st)) scale_factor) \<or>
          pos_y data \<noteq> pos_y (transformToAppCoordinates (prev_sent (fst st) f)
                                  (transformation_matrix (fst st)) scale_factor) \<or>
          pos_z data \<noteq> pos_z (transformToAppCoordinates (prev_sent (fst st) f)
                                  (transformation_matrix (fst st)) scale_factor))
      then to_all (callbacks (fst st))
             (Move data
                (calculateAzimuth (current_position f) (prev_sent (fst st) f))
                (calculateElevation (current_position f) (prev_sent (fst st) f))
                (calculateZoom (current_position f) (prev_sent (fst st) f)))
      else [])"
  by (simp add: move_events_def for_callbacks_snd Let_def prev_sent_def)

lemma move_events_fst:
  "fst (move_events f data st) =
     (if now f - last_event_timestamp (fst st) < kMinDelay then fst st
      else (fst st)\<lparr>last_event_timestamp := now f, call_first_time := False,
                     last_send_data := current_position f\<rparr>)"
  by (simp add: move_events_def for_callbacks_fst Let_def)

lemma filter_to_all:
  "filter (\<lambda>n. P (snd n)) (to_all cbs ev) = (if P ev then to_all cbs ev else [])"
  by (induction cbs) (simp_all add: to_all_def)

lemma button_transitions_scene:
  "molecule (fst (button_transitions cur lst sel st)) = molecule (fst st)"
  "gradient (fst (button_transitions cur lst sel st)) = gradient (fst st)"
  "invert_matrix (fst (button_transitions cur lst sel st)) = invert_matrix (fst st)"
  "calc_gradient_in_loop (fst (button_transitions cur lst sel st)) = calc_gradient_in_loop (fst st)"
  by (simp_all add: button_transitions_def for_callbacks_fst Let_def)

lemma tick_result:
  assumes "\<not> device_error f"
  shows "updateDeviceCallback p f =
           Inr \<lparr>manager = fst (move_events f
                     (transformToAppCoordinates (current_position f) (transformation_matrix p) scale_factor)
                     (button_transitions (current_buttons f) (last_buttons f)
                        (selected_atom_id_of (molecule p)
                           (transformToAppCoordinates (current_position f) (transformation_matrix p) scale_factor))
                        (p, []))),
                force_written = force_of_frame p f
                     (transformToAppCoordinates (current_position f) (transformation_matrix p) scale_factor),
                notifications = snd (move_events f
                     (transformToAppCoordinates (current_position f) (transformation_matrix p) scale_factor)
                     (button_transitions (current_buttons f) (last_buttons f)
                        (selected_atom_id_of (molecule p)
                           (transformToAppCoordinates (current_position f) (transformation_matrix p) scale_factor))
                        (p, [])))\<rparr>"
  using assms by (simp add: updateDeviceCallback_def Let_def)

lemma tick_scene:
  assumes "\<not> device_error f"
  shows "\<exists>r. updateDeviceCallback p f = Inr r \<and>
           callbacks (manager r) = callbacks p \<and>
           molecule (manager r) = molecule p \<and>
           transformation_matrix (manager r) = transformation_matrix p"
  unfolding tick_result[OF assms]
  by (simp add: move_events_fst button_transitions_callbacks button_transitions_scene
        button_transitions_session)

lemma tick_button_events:
  assumes "\<not> device_error f"
  shows "\<exists>r. updateDeviceCallback p f = Inr r \<and>
           callbacks (manager r) = callbacks p \<and>
           molecule (manager r) = molecule p \<and>
           transformation_matrix (manager r) = transformation_matrix p \<and>
           button1_events r =
             (if rising HD_DEVICE_BUTTON_1 (current_buttons f) (last_buttons f)
              then to_all (callbacks p) First_button_down else []) @
             (if falling HD_DEVICE_BUTTON_1 (current_buttons f) (last_buttons f)
              then to_all (callbacks p) First_button_up else []) \<and>
           button2_events r =
             (if rising HD_DEVICE_BUTTON_2 (current_buttons f) (last_buttons f)
              then to_all (callbacks p)
                     (Second_button_down (selected_atom_id_of (molecule p)
                        (transformToAppCoordinates (current_position f) (transformation_matrix p)
                           scale_factor)))
              else []) @
             (if falling HD_DEVICE_BUTTON_2 (current_buttons f) (last_buttons f)
              then to_all (callbacks p) Second_button_up else [])"
  unfolding tick_result[OF assms]
  by (simp add: move_events_fst move_events_snd button_transitions_callbacks
        button_transitions_scene button_transitions_session button_transitions_snd
        button1_events_def button2_events_def filter_to_all)

lemma tick_no_listener:
  assumes "callbacks p = []" "\<not> first_button_down p" "\<not> second_button_down p"
    and "\<not> device_error f"
  shows "\<exists>r. updateDeviceCallback p f = Inr r \<and>
           callbacks (manager r) = [] \<and>
           \<not> first_button_down (manager r) \<and> \<not> second_button_down (manager r) \<and>
           notifications r = [] \<and>
           (force_written r = None \<or> force_written r = Some (0, 0, 0))"
  unfolding tick_result[OF assms(4)]
  using assms(1-3)
  by (simp add: button_transitions_no_listener move_events_fst move_events_snd to_all_Nil
        force_of_frame_def setForce_def Let_def)

lemma frame_at_simps:
  "current_position (frame_at pos lpos cur lst t) = pos"
  "last_position (frame_at pos lpos cur lst t) = lpos"
  "current_buttons (frame_at pos lpos cur lst t) = cur"
  "last_buttons (frame_at pos lpos cur lst t) = lst"
  "device_error (frame_at pos lpos cur lst t) = False"
  "nominal_max_continuous_force (frame_at pos lpos cur lst t) = 1"
  "now (frame_at pos lpos cur lst t) = t"
  by (simp_all add: frame_at_def)

lemma force_of_frame_Some: "molecule p \<noteq> [] \<Longrightarrow> force_of_frame p f data \<noteq> None"
  by (simp add: force_of_frame_def Let_def)

lemma kMinDelay_value: "kMinDelay = 16666000"
  by (simp add: kMinDelay_def kMaxEventsPerSecond_def)

lemma tick_throttle:
  assumes "\<not> device_error f"
  shows "\<exists>r. updateDeviceCallback p f = Inr r \<and>
       (now f - last_event_timestamp p < kMinDelay \<longrightarrow>
          move_notifications r = [] \<and>
          last_event_timestamp (manager r) = last_event_timestamp p \<and>
          last_send_data (manager r) = last_send_data p \<and>
          call_first_time (manager r) = call_first_time p) \<and>
       (kMinDelay \<le> now f - last_event_timestamp p \<longrightarrow>
          last_event_timestamp (manager r) = now f \<and>
          last_send_data (manager r) = current_position f \<and>
          \<not> call_first_time (manager r) \<and>
          move_notifications r =
            (let data = transformToAppCoordinates (current_position f)
                          (transformation_matrix p) scale_factor;
                 last_data = transformToAppCoordinates (prev_sent p f)
                          (transformation_matrix p) scale_factor
             in if pos_x data \<noteq> pos_x last_data \<or> pos_y data \<noteq> pos_y last_data \<or>
                   pos_z data \<noteq> pos_z last_data
                then to_all (callbacks p)
                       (Move data (calculateAzimuth (current_position f) (prev_sent p f))
                          (calculateElevation (current_position f) (prev_sent p f))
                          (calculateZoom (current_position f) (prev_sent p f)))
                else []))"
proof -
  let ?data = "transformToAppCoordinates (current_position f) (transformation_matrix p) scale_factor"
  let ?st = "button_transitions (current_buttons f) (last_buttons f)
               (selected_atom_id_of (molecule p) ?data) (p, [])"
  have st: "last_event_timestamp (fst ?st) = last_event_timestamp p"
    "call_first_time (fst ?st) = call_first_time p"
    "last_send_data (fst ?st) = last_send_data p"
    "transformation_matrix (fst ?st) = transformation_matrix p"
    "callbacks (fst ?st) = callbacks p"
    by (simp_all add: button_transitions_session button_transitions_callbacks)
  have ps: "prev_sent (fst ?st) f = prev_sent p f"
    by (simp add: prev_sent_def st)
  have nb: "filter (\<lambda>n. is_move_event (snd n)) (snd ?st) = []"
    by (simp add: button_transitions_snd filter_to_all)
  show ?thesis
    unfolding tick_result[OF assms]
    by (simp add: move_notifications_def move_events_snd move_events_fst st ps nb
          filter_to_all Let_def)
qed

lemma button_transitions_flags:
  "first_button_down (fst (button_transitions cur lst sel st)) =
     (if callbacks (fst st) = [] then first_button_down (fst st)
      else if falling HD_DEVICE_BUTTON_1 cur lst then False
      else if rising HD_DEVICE_BUTTON_1 cur lst then True
      else first_button_down (fst st))"
  "second_button_down (fst (button_transitions cur lst sel st)) =
     (if callbacks (fst st) = [] then second_button_down (fst st)
      else if falling HD_DEVICE_BUTTON_2 cur lst then False
      else if rising HD_DEVICE_BUTTON_2 cur lst then True
      else second_button_down (fst st))"
  by (simp_all add: button_transitions_def for_callbacks_fst Let_def rising_def falling_def
        HD_DEVICE_BUTTON_1_def HD_DEVICE_BUTTON_2_def)

lemma tick_session_state:
  assumes "\<not> device_error f"
  shows "\<exists>r. updateDeviceCallback p f = Inr r \<and>
           callbacks (manager r) = callbacks p \<and>
           transformation_matrix (manager r) = transformation_matrix p \<and>
           first_button_down (manager r) =
             (if callbacks p = [] then first_button_down p
              else if falling HD_DEVICE_BUTTON_1 (current_buttons f) (last_buttons f) then False
              else if rising HD_DEVICE_BUTTON_1 (current_buttons f) (last_buttons f) then True
              else first_button_down p) \<and>
           second_button_down (manager r) =
             (if callbacks p = [] then second_button_down p
              else if falling HD_DEVICE_BUTTON_2 (current_buttons f) (last_buttons f) then False
              else if rising HD_DEVICE_BUTTON_2 (current_buttons f) (last_buttons f) then True
              else second_button_down p) \<and>
           (kMinDelay \<le> now f - last_event_timestamp p \<longrightarrow>
              last_event_timestamp (manager r) = now f \<and>
              last_send_data (manager r) = current_position f \<and>
              \<not> call_first_time (manager r))"
  unfolding tick_result[OF assms]
  by (simp add: move_events_fst button_transitions_flags button_transitions_callbacks
        button_transitions_session)

lemma app_identity:
  "transformToAppCoordinates (a, b, c) identity4 scale_factor =
     \<lparr>pos_x = a / 10, pos_y = b / 10, pos_z = c / 10\<rparr>"
  by (simp add: transformToAppCoordinates_def identity4_def scale_factor_def vsimps)

lemma listener5:
  "callbacks (add_haptic_callback 5 initial_manager) = [5]"
  "transformation_matrix (add_haptic_callback 5 initial_manager) = identity4"
  "last_event_timestamp (add_haptic_callback 5 initial_manager) = 0"
  "call_first_time (add_haptic_callback 5 initial_manager)"
  "\<not> first_button_down (add_haptic_callback 5 initial_manager)"
  "\<not> second_button_down (add_haptic_callback 5 initial_manager)"
  by (simp_all add: add_haptic_callback_def initial_manager_def)

lemma two_ticks:
  assumes "updateDeviceCallback p f1 = Inr r1" "updateDeviceCallback (manager r1) f2 = Inr r2"
  shows "projr (run_ticks p [f1, f2]) = [r1, r2]"
  using assms by simp

lemma tick_selection:
  assumes "\<not> device_error f"
  shows "\<exists>r. updateDeviceCallback p f = Inr r \<and>
           force_written r = force_of_frame p f
             (transformToAppCoordinates (current_position f) (transformation_matrix p) scale_factor) \<and>
           (rising HD_DEVICE_BUTTON_2 (current_buttons f) (last_buttons f) \<longrightarrow>
              button2_events r = to_all (callbacks p)
                (Second_button_down (selected_atom_id_of (molecule p)
                   (transformToAppCoordinates (current_position f) (transformation_matrix p)
                      scale_factor))))"
proof -
  from tick_button_events[OF assms, of p] obtain r where
    r: "updateDeviceCallback p f = Inr r"
    and b: "button2_events r =
             (if rising HD_DEVICE_BUTTON_2 (current_buttons f) (last_buttons f)
              then to_all (callbacks p)
                     (Second_button_down (selected_atom_id_of (molecule p)
                        (transformToAppCoordinates (current_position f) (transformation_matrix p)
                           scale_factor)))
              else []) @
             (if falling HD_DEVICE_BUTTON_2 (current_buttons f) (last_buttons f)
              then to_all (callbacks p) Second_button_up else [])"
    by blast
  have nf: "rising HD_DEVICE_BUTTON_2 (current_buttons f) (last_buttons f) \<Longrightarrow>
            \<not> falling HD_DEVICE_BUTTON_2 (current_buttons f) (last_buttons f)"
    by (simp add: rising_def falling_def HD_DEVICE_BUTTON_2_def)
  have fw: "force_written r = force_of_frame p f
             (transformToAppCoordinates (current_position f) (transformation_matrix p) scale_factor)"
    using r unfolding tick_result[OF assms] by auto
  from r b nf fw show ?thesis by auto
qed

lemma three_atom_manager_simps:
  "callbacks (three_atom_manager radius) = [5]"
  "transformation_matrix (three_atom_manager radius) = identity4"
  "molecule (three_atom_manager radius) =
     [\<lparr>atom_index = 10, atom_pos_x = 3, atom_pos_y = 1, atom_pos_z = 0, atom_distance = 1\<rparr>,
      \<lparr>atom_index = 11, atom_pos_x = 1, atom_pos_y = 2, atom_pos_z = 0, atom_distance = radius\<rparr>,
      \<lparr>atom_index = 12, atom_pos_x = 1, atom_pos_y = 1, atom_pos_z = 1, atom_distance = 1\<rparr>]"
  by (simp_all add: three_atom_manager_def add_haptic_callback_def add_atom_def initial_manager_def)

lemma three_atom_selected:
  "selected_atom_id_of (molecule (three_atom_manager radius))
     \<lparr>pos_x = 1, pos_y = 1, pos_z = 0\<rparr> = (if 1 \<le> 3 * radius then 11 else - 1)"
  by (simp add: three_atom_manager_simps selected_atom_id_of_def closest_atom_of_def
        findClosestAtomIndex_def calculateDistance_def Let_def)

text \<open>
  C6. In every tick without device error on a non-empty atom list there is an atom of
  the list at minimal Euclidean distance from the pointer (the lowest index among ties),
  and the tick selects it if and only if that distance is at most three times the atom's
  radius: at a distance of at most, in particular exactly, three times the radius the
  selected id is the atom's id, at any greater distance it stays \<open>-1\<close>. The selected id is
  the one a rising edge of button 2 reports to the listeners, and only a selected atom
  whose id indexes the gradient table contributes its gradient to the force written.
\<close>

theorem tick_selects_closest_within_three_radii:
  assumes "\<not> device_error f" and "molecule p \<noteq> []"
  shows "\<exists>r i. updateDeviceCallback p f = Inr r \<and> i < length (molecule p) \<and>
    (let data = transformToAppCoordinates (current_position f) (transformation_matrix p)
                  scale_factor;
         d = (\<lambda>atom. sqrt ((atom_pos_x atom - pos_x data)\<^sup>2 +
                            (atom_pos_y atom - pos_y data)\<^sup>2 +
                            (atom_pos_z atom - pos_z data)\<^sup>2));
         closest = molecule p ! i;
         selected = selected_atom_id_of (molecule p) data;
         grad = (if d closest \<le> 3 * atom_distance closest \<and> 0 \<le> atom_index closest \<and>
                    nat (atom_index closest) < length (gradient p)
                 then gradient p ! nat (atom_index closest) else [0, 0, 0])
     in (\<forall>j < length (molecule p). d closest \<le> d (molecule p ! j)) \<and>
        (\<forall>j < i. d closest < d (molecule p ! j)) \<and>
        (d closest = 3 * atom_distance closest \<longrightarrow> selected = atom_index closest) \<and>
        (d closest \<le> 3 * atom_distance closest \<longrightarrow> selected = atom_index closest) \<and>
        (d closest > 3 * atom_distance closest \<longrightarrow> selected = - 1) \<and>
        (rising HD_DEVICE_BUTTON_2 (current_buttons f) (last_buttons f) \<longrightarrow>
           button2_events r = to_all (callbacks p) (Second_button_down selected)) \<and>
        force_written r =
          Some (setForce (current_position f)
                  (transformToHapticCoordinates (atom_pos_x closest) (atom_pos_y closest)
                     (atom_pos_z closest) (invert_matrix p) scale_factor)
                  (transformToHapticCoordinates (grad ! 0) (grad ! 1) (grad ! 2)
                     (invert_matrix p) scale_factor)
                  p (nominal_max_continuous_force f)))"
proof -
  let ?data = "transformToAppCoordinates (current_position f) (transformation_matrix p) scale_factor"
  let ?i = "nat (findClosestAtomIndex (molecule p) ?data)"
  from tick_selection[OF assms(1), of p] obtain r where
    r: "updateDeviceCallback p f = Inr r"
    and fw: "force_written r = force_of_frame p f ?data"
    and b2: "rising HD_DEVICE_BUTTON_2 (current_buttons f) (last_buttons f) \<longrightarrow>
              button2_events r = to_all (callbacks p)
                (Second_button_down (selected_atom_id_of (molecule p) ?data))"
    by blast
  have i: "?i < length (molecule p)"
    using assms(2) by (rule findClosestAtomIndex_minimal(2))
  have mn: "\<forall>j < length (molecule p).
              calculateDistance (molecule p ! ?i) ?data \<le> calculateDistance (molecule p ! j) ?data"
    using assms(2) by (rule findClosestAtomIndex_minimal(3))
  have fs: "\<forall>j < ?i.
              calculateDistance (molecule p ! ?i) ?data < calculateDistance (molecule p ! j) ?data"
    using assms(2) by (rule findClosestAtomIndex_minimal(4))
  have sel: "selected_atom_id_of (molecule p) ?data =
               (if calculateDistance (molecule p ! ?i) ?data \<le> 3 * atom_distance (molecule p ! ?i)
                then atom_index (molecule p ! ?i) else - 1)"
    using assms(2) by (simp add: selected_atom_id_of_def closest_atom_of_def Let_def)
  have force: "force_of_frame p f ?data =
          Some (setForce (current_position f)
                  (transformToHapticCoordinates (atom_pos_x (molecule p ! ?i))
                     (atom_pos_y (molecule p ! ?i)) (atom_pos_z (molecule p ! ?i))
                     (invert_matrix p) scale_factor)
                  (transformToHapticCoordinates
                     ((if calculateDistance (molecule p ! ?i) ?data
                            \<le> 3 * atom_distance (molecule p ! ?i) \<and>
                          0 \<le> atom_index (molecule p ! ?i) \<and>
                          nat (atom_index (molecule p ! ?i)) < length (gradient p)
                       then gradient p ! nat (atom_index (molecule p ! ?i)) else [0, 0, 0]) ! 0)
                     ((if calculateDistance (molecule p ! ?i) ?data
                            \<le> 3 * atom_distance (molecule p ! ?i) \<and>
                          0 \<le> atom_index (molecule p ! ?i) \<and>
                          nat (atom_index (molecule p ! ?i)) < length (gradient p)
                       then gradient p ! nat (atom_index (molecule p ! ?i)) else [0, 0, 0]) ! 1)
                     ((if calculateDistance (molecule p ! ?i) ?data
                            \<le> 3 * atom_distance (molecule p ! ?i) \<and>
                          0 \<le> atom_index (molecule p ! ?i) \<and>
                          nat (atom_index (molecule p ! ?i)) < length (gradient p)
                       then gradient p ! nat (atom_index (molecule p ! ?i)) else [0, 0, 0]) ! 2)
                     (invert_matrix p) scale_factor)
                  p (nominal_max_continuous_force f))"
    using assms(2)
    by (simp add: force_of_frame_def selected_gradient_def closest_atom_of_def Let_def)
  show ?thesis
    unfolding Let_def calculateDistance_euclidean[symmetric]
    apply (rule exI[of _ r])
    apply (rule exI[of _ ?i])
    apply (insert r i mn fs sel fw b2)
    apply (simp add: force)
    done
qed

text \<open>The pointer at \<open>(1, 1, 0)\<close>, the nearest atom (id 11, the second of three) at
  distance 1: with radius 1/3 it is selected, with radius 1/4 it is not.\<close>

theorem tick_selects_closest_within_three_radii_witness:
  "\<not> device_error (frame_at (10, 10, 0) (10, 10, 0) 2 0 1000000000) \<and>
   molecule (three_atom_manager (1 / 3)) \<noteq> [] \<and>
   molecule (three_atom_manager (1 / 4)) \<noteq> [] \<and>
   (\<exists>r. updateDeviceCallback (three_atom_manager (1 / 3))
          (frame_at (10, 10, 0) (10, 10, 0) 2 0 1000000000) = Inr r \<and>
        button2_events r = [(5, Second_button_down 11)]) \<and>
   (\<exists>r. updateDeviceCallback (three_atom_manager (1 / 4))
          (frame_at (10, 10, 0) (10, 10, 0) 2 0 1000000000) = Inr r \<and>
        button2_events r = [(5, Second_button_down (- 1))])"
proof -
  let ?f = "frame_at (10, 10, 0) (10, 10, 0) 2 0 1000000000"
  have e: "\<not> device_error ?f" by (simp add: frame_at_simps)
  have ne: "molecule (three_atom_manager radius) \<noteq> []" for radius
    by (simp add: three_atom_manager_simps)
  have up: "rising HD_DEVICE_BUTTON_2 (current_buttons ?f) (last_buttons ?f)"
    by (simp add: rising_def frame_at_simps HD_DEVICE_BUTTON_2_def)
  have app: "transformToAppCoordinates (current_position ?f)
               (transformation_matrix (three_atom_manager radius)) scale_factor
             = \<lparr>pos_x = 1, pos_y = 1, pos_z = 0\<rparr>" for radius
    by (simp add: frame_at_simps three_atom_manager_simps app_identity)
  from tick_selects_closest_within_three_radii[OF e ne[of "1 / 3"]] up
  have a: "\<exists>r. updateDeviceCallback (three_atom_manager (1 / 3)) ?f = Inr r \<and>
             button2_events r = [(5, Second_button_down 11)]"
    unfolding Let_def app three_atom_selected
    by (auto simp add: three_atom_manager_simps to_all_def)
  from tick_selects_closest_within_three_radii[OF e ne[of "1 / 4"]] up
  have b: "\<exists>r. updateDeviceCallback (three_atom_manager (1 / 4)) ?f = Inr r \<and>
             button2_events r = [(5, Second_button_down (- 1))]"
    unfolding Let_def app three_atom_selected
    by (auto simp add: three_atom_manager_simps to_all_def)
  from e ne a b show ?thesis by blast
qed

text \<open>
  C3, as the code has it. The minimum interval \<open>kMinDelay\<close> is 16666 microseconds
  (1000000 microseconds divided by 60 in integer arithmetic), 16666000 ticks of the
  nanosecond clock, measured from the throttle timestamp. A tick earlier than that emits
  no move notification and leaves timestamp and last sent position as they are. A tick
  at or after it sets the timestamp to the current time and the last sent position to
  the current device position whether or not the position changed, and emits one move
  notification per registered listener exactly when the application position differs in
  some component from that of the last sent position.
\<close>

theorem move_event_throttle:
  assumes "\<not> device_error f"
  shows "kMinDelay = 16666000 \<and>
    (\<exists>r. updateDeviceCallback p f = Inr r \<and>
       (now f - last_event_timestamp p < kMinDelay \<longrightarrow>
          move_notifications r = [] \<and>
          last_event_timestamp (manager r) = last_event_timestamp p \<and>
          last_send_data (manager r) = last_send_data p) \<and>
       (kMinDelay \<le> now f - last_event_timestamp p \<longrightarrow>
          last_event_timestamp (manager r) = now f \<and>
          last_send_data (manager r) = current_position f \<and>
          move_notifications r =
            (let data = transformToAppCoordinates (current_position f)
                          (transformation_matrix p) scale_factor;
                 last_data = transformToAppCoordinates (prev_sent p f)
                          (transformation_matrix p) scale_factor
             in if pos_x data \<noteq> pos_x last_data \<or> pos_y data \<noteq> pos_y last_data \<or>
                   pos_z data \<noteq> pos_z last_data
                then to_all (callbacks p)
                       (Move data (calculateAzimuth (current_position f) (prev_sent p f))
                          (calculateElevation (current_position f) (prev_sent p f))
                          (calculateZoom (current_position f) (prev_sent p f)))
                else [])))"
  using tick_throttle[OF assms, of p] kMinDelay_value by blast

text \<open>From a fresh manager with one listener: a tick one second after the clock's epoch
  emits, a tick 16 milliseconds after it does not.\<close>

theorem move_event_throttle_witness:
  "\<not> device_error (frame_at (10, 0, 0) (0, 0, 0) 0 0 1000000000) \<and>
   kMinDelay \<le> now (frame_at (10, 0, 0) (0, 0, 0) 0 0 1000000000)
                - last_event_timestamp (add_haptic_callback 5 initial_manager) \<and>
   (\<exists>r. updateDeviceCallback (add_haptic_callback 5 initial_manager)
          (frame_at (10, 0, 0) (0, 0, 0) 0 0 1000000000) = Inr r \<and>
        last_event_timestamp (manager r) = 1000000000 \<and>
        last_send_data (manager r) = (10, 0, 0) \<and>
        move_notifications r = [(5, Move \<lparr>pos_x = 1, pos_y = 0, pos_z = 0\<rparr> (- 10) 0 1)]) \<and>
   now (frame_at (10, 0, 0) (0, 0, 0) 0 0 16000000)
     - last_event_timestamp (add_haptic_callback 5 initial_manager) < kMinDelay \<and>
   (\<exists>r. updateDeviceCallback (add_haptic_callback 5 initial_manager)
          (frame_at (10, 0, 0) (0, 0, 0) 0 0 16000000) = Inr r \<and>
        last_event_timestamp (manager r) = 0 \<and>
        move_notifications r = [])"
proof -
  let ?p = "add_haptic_callback 5 initial_manager"
  let ?f1 = "frame_at (10, 0, 0) (0, 0, 0) 0 0 1000000000"
  let ?f2 = "frame_at (10, 0, 0) (0, 0, 0) 0 0 16000000"
  have e1: "\<not> device_error ?f1" and e2: "\<not> device_error ?f2"
    by (simp_all add: frame_at_simps)
  have pass: "kMinDelay \<le> now ?f1 - last_event_timestamp ?p"
    by (simp add: frame_at_simps listener5 kMinDelay_value)
  have hold: "now ?f2 - last_event_timestamp ?p < kMinDelay"
    by (simp add: frame_at_simps listener5 kMinDelay_value)
  from move_event_throttle[OF e1, of ?p] pass have
    "\<exists>r. updateDeviceCallback ?p ?f1 = Inr r \<and>
        last_event_timestamp (manager r) = 1000000000 \<and>
        last_send_data (manager r) = (10, 0, 0) \<and>
        move_notifications r = [(5, Move \<lparr>pos_x = 1, pos_y = 0, pos_z = 0\<rparr> (- 10) 0 1)]"
    by (auto simp add: frame_at_simps listener5 prev_sent_def app_identity to_all_def
          calculateAzimuth_def calculateElevation_def calculateZoom_def vsimps)
  moreover from move_event_throttle[OF e2, of ?p] hold have
    "\<exists>r. updateDeviceCallback ?p ?f2 = Inr r \<and>
        last_event_timestamp (manager r) = 0 \<and>
        move_notifications r = []"
    by (auto simp add: listener5)
  ultimately show ?thesis using e1 pass hold by blast
qed

text \<open>The claim as stated fails: a second tick 16666 microseconds after an emitting tick
  is less than 1/60 second after it, and emits a move notification.\<close>

theorem move_event_throttle_counterexample:
  "real_of_int (1016666000 - 1000000000) / 1000000000 < 1 / 60 \<and>
   move_notifications
     (projr (run_ticks (add_haptic_callback 5 initial_manager)
        [frame_at (10, 0, 0) (0, 0, 0) 0 0 1000000000,
         frame_at (20, 0, 0) (10, 0, 0) 0 0 1016666000]) ! 0)
     = [(5, Move \<lparr>pos_x = 1, pos_y = 0, pos_z = 0\<rparr> (- 10) 0 1)] \<and>
   move_notifications
     (projr (run_ticks (add_haptic_callback 5 initial_manager)
        [frame_at (10, 0, 0) (0, 0, 0) 0 0 1000000000,
         frame_at (20, 0, 0) (10, 0, 0) 0 0 1016666000]) ! 1)
     = [(5, Move \<lparr>pos_x = 2, pos_y = 0, pos_z = 0\<rparr> (- 10) 0 1)]"
proof -
  let ?p = "add_haptic_callback 5 initial_manager"
  let ?f1 = "frame_at (10, 0, 0) (0, 0, 0) 0 0 1000000000"
  let ?f2 = "frame_at (20, 0, 0) (10, 0, 0) 0 0 1016666000"
  have e1: "\<not> device_error ?f1" and e2: "\<not> device_error ?f2"
    by (simp_all add: frame_at_simps)
  from tick_throttle[OF e1, of ?p] obtain r1 where
    r1: "updateDeviceCallback ?p ?f1 = Inr r1"
    and m1: "move_notifications r1 = [(5, Move \<lparr>pos_x = 1, pos_y = 0, pos_z = 0\<rparr> (- 10) 0 1)]"
    and s1: "last_event_timestamp (manager r1) = 1000000000"
      "last_send_data (manager r1) = (10, 0, 0)" "\<not> call_first_time (manager r1)"
    by (auto simp add: frame_at_simps listener5 prev_sent_def app_identity to_all_def
          kMinDelay_value calculateAzimuth_def calculateElevation_def calculateZoom_def vsimps)
  from tick_scene[OF e1, of ?p] r1 have c1: "callbacks (manager r1) = [5]"
    "transformation_matrix (manager r1) = identity4"
    by (auto simp add: listener5)
  from tick_throttle[OF e2, of "manager r1"] obtain r2 where
    r2: "updateDeviceCallback (manager r1) ?f2 = Inr r2"
    and m2: "move_notifications r2 = [(5, Move \<lparr>pos_x = 2, pos_y = 0, pos_z = 0\<rparr> (- 10) 0 1)]"
    by (auto simp add: frame_at_simps s1 c1 prev_sent_def app_identity to_all_def
          kMinDelay_value calculateAzimuth_def calculateElevation_def calculateZoom_def vsimps)
  have "projr (run_ticks ?p [?f1, ?f2]) = [r1, r2]" using r1 r2 by (rule two_ticks)
  with m1 m2 show ?thesis by simp
qed



text \<open>
  C10. The two button flags are assigned only inside the loops over the listeners. With
  an empty listener registry and both flags false, every tick of any run without device
  error leaves both flags false, notifies nobody, and writes either no force (empty atom
  list) or the zero force: the guidance branch of \<open>setForce\<close> is never taken.
\<close>

theorem no_listener_flags_stay_false:
  assumes "callbacks p = []" "\<not> first_button_down p" "\<not> second_button_down p"
    and "\<forall>f \<in> set fs. \<not> device_error f"
  shows "\<exists>rs. run_ticks p fs = Inr rs \<and> length rs = length fs \<and>
           (\<forall>r \<in> set rs. \<not> first_button_down (manager r) \<and>
                          \<not> second_button_down (manager r) \<and>
                          notifications r = [] \<and>
                          (force_written r = None \<or> force_written r = Some (0, 0, 0)))"
  using assms
proof (induction fs arbitrary: p)
  case Nil
  show ?case by simp
next
  case (Cons f fs)
  from Cons.prems have "\<not> device_error f" by simp
  from tick_no_listener[OF Cons.prems(1-3) this] obtain r where
    r: "updateDeviceCallback p f = Inr r" "callbacks (manager r) = []"
       "\<not> first_button_down (manager r)" "\<not> second_button_down (manager r)"
       "notifications r = []"
       "force_written r = None \<or> force_written r = Some (0, 0, 0)"
    by blast
  from Cons.prems have "\<forall>f \<in> set fs. \<not> device_error f" by simp
  from Cons.IH[OF r(2-4) this] obtain rs where
    rs: "run_ticks (manager r) fs = Inr rs" "length rs = length fs"
        "\<forall>r \<in> set rs. \<not> first_button_down (manager r) \<and>
                          \<not> second_button_down (manager r) \<and>
                          notifications r = [] \<and>
                          (force_written r = None \<or> force_written r = Some (0, 0, 0))"
    by blast
  have "run_ticks p (f # fs) = Inr (r # rs)" using r(1) rs(1) by simp
  with r rs show ?case by simp
qed


text \<open>Guidance mode on, an atom and its gradient present, button 2 pressed and released,
  no listener: the force written is zero on both ticks.\<close>

theorem no_listener_flags_stay_false_witness:
  "\<exists>r1 r2.
     run_ticks scene_manager
       [frame_at (10, 0, 0) (10, 0, 0) 3 0 1000000000,
        frame_at (20, 0, 0) (10, 0, 0) 0 3 2000000000] = Inr [r1, r2] \<and>
     \<not> second_button_down (manager r1) \<and> force_written r1 = Some (0, 0, 0) \<and>
     \<not> second_button_down (manager r2) \<and> force_written r2 = Some (0, 0, 0)"
proof -
  have h: "callbacks scene_manager = []" "\<not> first_button_down scene_manager"
    "\<not> second_button_down scene_manager" "molecule scene_manager \<noteq> []"
    by (simp_all add: scene_manager_def set_calc_gradient_in_loop_def add_atom_def
          initial_manager_def)
  have e: "\<forall>f \<in> set [frame_at (10, 0, 0) (10, 0, 0) 3 0 1000000000,
                        frame_at (20, 0, 0) (10, 0, 0) 0 3 2000000000]. \<not> device_error f"
    by (simp add: frame_at_simps)
  from no_listener_flags_stay_false[OF h(1-3) e] obtain rs where
    rs: "run_ticks scene_manager
           [frame_at (10, 0, 0) (10, 0, 0) 3 0 1000000000,
            frame_at (20, 0, 0) (10, 0, 0) 0 3 2000000000] = Inr rs"
      "length rs = 2"
      "\<forall>r \<in> set rs. \<not> first_button_down (manager r) \<and> \<not> second_button_down (manager r) \<and>
          notifications r = [] \<and> (force_written r = None \<or> force_written r = Some (0, 0, 0))"
    by auto
  from rs(2) obtain r1 r2 where r12: "rs = [r1, r2]"
    by (auto simp: numeral_2_eq_2 length_Suc_conv)
  have t1: "updateDeviceCallback scene_manager (frame_at (10, 0, 0) (10, 0, 0) 3 0 1000000000) = Inr r1"
    using rs(1) unfolding r12 by (simp split: sum.splits)
  then have m1: "molecule (manager r1) = molecule scene_manager"
    using tick_scene[of "frame_at (10, 0, 0) (10, 0, 0) 3 0 1000000000" scene_manager]
    by (simp add: frame_at_simps)
  have f1: "force_written r1 \<noteq> None"
    using t1 force_of_frame_Some[OF h(4)]
      tick_result[of "frame_at (10, 0, 0) (10, 0, 0) 3 0 1000000000" scene_manager]
    by (auto simp add: frame_at_simps)
  have t2: "updateDeviceCallback (manager r1) (frame_at (20, 0, 0) (10, 0, 0) 0 3 2000000000) = Inr r2"
    using rs(1) t1 unfolding r12 by (simp split: sum.splits)
  have f2: "force_written r2 \<noteq> None"
    using t2 h(4) m1 force_of_frame_Some[of "manager r1"]
      tick_result[of "frame_at (20, 0, 0) (10, 0, 0) 0 3 2000000000" "manager r1"]
    by (auto simp add: frame_at_simps)
  from rs(1,3) f1 f2 show ?thesis unfolding r12 by auto
qed

text \<open>
  C8, as the code has it. \<open>exit_haptic_device\<close> leaves the loop session state (the two
  button flags, the first-tick flag, the last sent position and the throttle timestamp)
  exactly as it was; it only stops the scheduler, unschedules the callback and
  invalidates the device handle.
\<close>

theorem exit_haptic_device_keeps_session_state:
  "session_state (fst (exit_haptic_device p)) = session_state p"
  by (simp add: exit_haptic_device_def session_state_def)

theorem exit_haptic_device_keeps_session_state_witness:
  "session_state (fst (exit_haptic_device (initial_manager\<lparr>ghHD := 0, second_button_down := True\<rparr>)))
     = (False, True, True, (0, 0, 0), 0) \<and>
   ghHD (fst (exit_haptic_device (initial_manager\<lparr>ghHD := 0, second_button_down := True\<rparr>)))
     = HD_INVALID_HANDLE"
  using exit_haptic_device_keeps_session_state[of "initial_manager\<lparr>ghHD := 0, second_button_down := True\<rparr>"]
  by (simp add: session_state_def initial_manager_def exit_haptic_device_def HD_INVALID_HANDLE_def)

text \<open>The claim as stated fails: after a tick with a listener and button 1 pressed, stopping
  the device leaves a session state that is not the initial one.\<close>

theorem exit_haptic_device_no_reset_counterexample:
  "session_state
     (fst (exit_haptic_device
        (manager (projr (updateDeviceCallback (add_haptic_callback 5 initial_manager)
           (frame_at (10, 0, 0) (0, 0, 0) 1 0 1000000000))))))
     = (True, False, False, (10, 0, 0), 1000000000) \<and>
   session_state initial_manager = (False, False, True, (0, 0, 0), 0)"
proof -
  let ?p = "add_haptic_callback 5 initial_manager"
  let ?f = "frame_at (10, 0, 0) (0, 0, 0) 1 0 1000000000"
  have e: "\<not> device_error ?f" by (simp add: frame_at_simps)
  from tick_session_state[OF e, of ?p] obtain r where
    r: "updateDeviceCallback ?p ?f = Inr r"
    and s: "first_button_down (manager r)" "\<not> second_button_down (manager r)"
      "last_event_timestamp (manager r) = 1000000000"
      "last_send_data (manager r) = (10, 0, 0)" "\<not> call_first_time (manager r)"
    by (auto simp add: frame_at_simps listener5 kMinDelay_value rising_def falling_def
          HD_DEVICE_BUTTON_1_def HD_DEVICE_BUTTON_2_def)
  have "session_state (fst (exit_haptic_device (manager r)))
          = (True, False, False, (10, 0, 0), 1000000000)"
    using s by (simp add: session_state_def exit_haptic_device_def)
  moreover have "session_state initial_manager = (False, False, True, (0, 0, 0), 0)"
    by (simp add: session_state_def initial_manager_def)
  ultimately show ?thesis using r by simp
qed

subsection \<open>Coordinate round trip\<close>

lemma affine_row:
  fixes a b c :: real
  assumes e0: "p0 * t00 + p1 * t10 + p2 * t20 = d0"
    and e1: "p0 * t01 + p1 * t11 + p2 * t21 = d1"
    and e2: "p0 * t02 + p1 * t12 + p2 * t22 = d2"
    and e3: "p0 * t03 + p1 * t13 + p2 * t23 + p3 = 0"
  shows "p0 * (t00 * a + t01 * b + t02 * c + t03) +
         p1 * (t10 * a + t11 * b + t12 * c + t13) +
         p2 * (t20 * a + t21 * b + t22 * c + t23) + p3
         = d0 * a + d1 * b + d2 * c"
proof -
  have "p0 * (t00 * a + t01 * b + t02 * c + t03) +
         p1 * (t10 * a + t11 * b + t12 * c + t13) +
         p2 * (t20 * a + t21 * b + t22 * c + t23) + p3
        = (p0 * t00 + p1 * t10 + p2 * t20) * a + (p0 * t01 + p1 * t11 + p2 * t21) * b +
          (p0 * t02 + p1 * t12 + p2 * t22) * c + (p0 * t03 + p1 * t13 + p2 * t23 + p3)"
    by (simp add: algebra_simps)
  then show ?thesis unfolding e0 e1 e2 e3 by simp
qed

text \<open>
  C5, as the code has it. For a 4 by 4 matrix \<open>T\<close> whose bottom row is \<open>(0, 0, 0, 1)\<close>
  (an affine transform), its exact inverse and a scale factor other than 0, mapping a
  device vector to application coordinates and back reconstructs it exactly over the
  reals.
\<close>

theorem transform_round_trip:
  assumes inv: "is_inverse4 Tinv T" and aff: "T ! 3 = [0, 0, 0, 1]" and s: "s \<noteq> 0"
  shows "(let d = transformToAppCoordinates v T s
          in transformToHapticCoordinates (pos_x d) (pos_y d) (pos_z d) Tinv s) = v"
proof -
  obtain a b c where v: "v = (a, b, c)" by (cases v)
  from inv have m: "mat_mul4 Tinv T = identity4" by (simp add: is_inverse4_def)
  have t3: "T ! 3 ! 0 = 0" "T ! 3 ! Suc 0 = 0" "T ! 3 ! 2 = 0" "T ! 3 ! 3 = 1"
    by (simp_all add: aff)
  from m have r0:
    "Tinv ! 0 ! 0 * T ! 0 ! 0 + Tinv ! 0 ! Suc 0 * T ! Suc 0 ! 0 + Tinv ! 0 ! 2 * T ! 2 ! 0 = 1"
    "Tinv ! 0 ! 0 * T ! 0 ! Suc 0 + Tinv ! 0 ! Suc 0 * T ! Suc 0 ! Suc 0 + Tinv ! 0 ! 2 * T ! 2 ! Suc 0 = 0"
    "Tinv ! 0 ! 0 * T ! 0 ! 2 + Tinv ! 0 ! Suc 0 * T ! Suc 0 ! 2 + Tinv ! 0 ! 2 * T ! 2 ! 2 = 0"
    "Tinv ! 0 ! 0 * T ! 0 ! 3 + Tinv ! 0 ! Suc 0 * T ! Suc 0 ! 3 + Tinv ! 0 ! 2 * T ! 2 ! 3 + Tinv ! 0 ! 3 = 0"
    by (simp_all add: mat_mul4_def identity4_def t3)
  from m have r1:
    "Tinv ! Suc 0 ! 0 * T ! 0 ! 0 + Tinv ! Suc 0 ! Suc 0 * T ! Suc 0 ! 0 + Tinv ! Suc 0 ! 2 * T ! 2 ! 0 = 0"
    "Tinv ! Suc 0 ! 0 * T ! 0 ! Suc 0 + Tinv ! Suc 0 ! Suc 0 * T ! Suc 0 ! Suc 0 + Tinv ! Suc 0 ! 2 * T ! 2 ! Suc 0 = 1"
    "Tinv ! Suc 0 ! 0 * T ! 0 ! 2 + Tinv ! Suc 0 ! Suc 0 * T ! Suc 0 ! 2 + Tinv ! Suc 0 ! 2 * T ! 2 ! 2 = 0"
    "Tinv ! Suc 0 ! 0 * T ! 0 ! 3 + Tinv ! Suc 0 ! Suc 0 * T ! Suc 0 ! 3 + Tinv ! Suc 0 ! 2 * T ! 2 ! 3 + Tinv ! Suc 0 ! 3 = 0"
    by (simp_all add: mat_mul4_def identity4_def t3)
  from m have r2:
    "Tinv ! 2 ! 0 * T ! 0 ! 0 + Tinv ! 2 ! Suc 0 * T ! Suc 0 ! 0 + Tinv ! 2 ! 2 * T ! 2 ! 0 = 0"
    "Tinv ! 2 ! 0 * T ! 0 ! Suc 0 + Tinv ! 2 ! Suc 0 * T ! Suc 0 ! Suc 0 + Tinv ! 2 ! 2 * T ! 2 ! Suc 0 = 0"
    "Tinv ! 2 ! 0 * T ! 0 ! 2 + Tinv ! 2 ! Suc 0 * T ! Suc 0 ! 2 + Tinv ! 2 ! 2 * T ! 2 ! 2 = 1"
    "Tinv ! 2 ! 0 * T ! 0 ! 3 + Tinv ! 2 ! Suc 0 * T ! Suc 0 ! 3 + Tinv ! 2 ! 2 * T ! 2 ! 3 + Tinv ! 2 ! 3 = 0"
    by (simp_all add: mat_mul4_def identity4_def t3)
  show ?thesis
    unfolding v transformToAppCoordinates_def transformToHapticCoordinates_def Let_def
    using s by (simp add: vsimps affine_row[OF r0] affine_row[OF r1] affine_row[OF r2])
qed

theorem transform_round_trip_witness:
  "is_inverse4 [[1, 0, 0, - 3], [0, 1 / 2, 0, 0], [0, 0, 1, 0], [0, 0, 0, 1]]
               [[1, 0, 0, 3], [0, 2, 0, 0], [0, 0, 1, 0], [0, 0, 0, 1]] \<and>
   [[1, 0, 0, 3], [0, 2, 0, 0], [0, 0, 1, 0], [0, 0, 0, 1 :: real]] ! 3 = [0, 0, 0, 1] \<and>
   (10 :: int) \<noteq> 0 \<and>
   transformToAppCoordinates (5, 6, 7) [[1, 0, 0, 3], [0, 2, 0, 0], [0, 0, 1, 0], [0, 0, 0, 1]] 10
     = \<lparr>pos_x = 8 / 10, pos_y = 12 / 10, pos_z = 7 / 10\<rparr> \<and>
   transformToHapticCoordinates (8 / 10) (12 / 10) (7 / 10)
     [[1, 0, 0, - 3], [0, 1 / 2, 0, 0], [0, 0, 1, 0], [0, 0, 0, 1]] 10 = (5, 6, 7)"
proof -
  have h1: "is_inverse4 [[1, 0, 0, - 3], [0, 1 / 2, 0, 0], [0, 0, 1, 0], [0, 0, 0, 1]]
               [[1, 0, 0, 3], [0, 2, 0, 0], [0, 0, 1, 0], [0, 0, 0, 1]]"
    by (simp add: is_inverse4_def is_mat4_def mat_mul4_def identity4_def)
  have h2: "[[1, 0, 0, 3], [0, 2, 0, 0], [0, 0, 1, 0], [0, 0, 0, 1 :: real]] ! 3 = [0, 0, 0, 1]"
    by simp
  have h3: "(10 :: int) \<noteq> 0" by simp
  have a: "transformToAppCoordinates (5, 6, 7)
             [[1, 0, 0, 3], [0, 2, 0, 0], [0, 0, 1, 0], [0, 0, 0, 1]] 10
           = \<lparr>pos_x = 8 / 10, pos_y = 12 / 10, pos_z = 7 / 10\<rparr>"
    by (simp add: transformToAppCoordinates_def vsimps)
  from transform_round_trip[OF h1 h2 h3, of "(5, 6, 7)"] h1 h2 h3 a
  show ?thesis by (simp add: Let_def)
qed

text \<open>The claim as stated fails for a matrix that is not affine: the code reads only the
  first three rows of either matrix.\<close>

theorem transform_round_trip_counterexample:
  "is_inverse4 [[2, 0, 0, - 1], [0, 1, 0, 0], [0, 0, 1, 0], [- 1, 0, 0, 1]]
               [[1, 0, 0, 1], [0, 1, 0, 0], [0, 0, 1, 0], [1, 0, 0, 2]] \<and>
   (10 :: int) \<noteq> 0 \<and>
   transformToAppCoordinates (0, 0, 0) [[1, 0, 0, 1], [0, 1, 0, 0], [0, 0, 1, 0], [1, 0, 0, 2]] 10
     = \<lparr>pos_x = 1 / 10, pos_y = 0, pos_z = 0\<rparr> \<and>
   transformToHapticCoordinates (1 / 10) 0 0
     [[2, 0, 0, - 1], [0, 1, 0, 0], [0, 0, 1, 0], [- 1, 0, 0, 1]] 10 = (1, 0, 0) \<and>
   (1, 0, 0) \<noteq> (0 :: real, 0 :: real, 0 :: real)"
  by (simp add: is_inverse4_def is_mat4_def mat_mul4_def identity4_def
        transformToAppCoordinates_def transformToHapticCoordinates_def vsimps)

end
